theory Spec2Isabelle
  imports Complex_Main "HOL-Library.AList"
begin

section \<open>JavaScript values\<close>

subsection \<open>Numbers\<close>

text \<open>
  A JavaScript \<^verbatim>\<open>number\<close> is an IEEE-754 double: a finite value, one of the two
  infinities, or NaN. A finite double is modelled by the rational number it is equal to.
  The sign of zero is not modelled; no function of the ledger tells the two zeros apart.
\<close>

datatype jsnum = Fin rat | PosInfinity | NegInfinity | NaN

text \<open>\<open>pow2 k\<close> is \<open>2\<^sup>k\<close> for an integer \<open>k\<close>.\<close>

definition pow2 :: "int \<Rightarrow> rat" where
  "pow2 k = (if 0 \<le> k then 2 ^ nat k else 1 / 2 ^ nat (- k))"

text \<open>
  The binary exponent of \<open>q\<close>: for \<open>pow2 lo \<le> q < pow2 hi\<close>, the \<open>e\<close> with
  \<open>pow2 e \<le> q < pow2 (e + 1)\<close>, found by bisection.
\<close>

function binade :: "int \<Rightarrow> int \<Rightarrow> rat \<Rightarrow> int" where
  "binade lo hi q =
     (if hi \<le> lo + 1 then lo
      else let mid = (lo + hi) div 2
           in if pow2 mid \<le> q then binade mid hi q else binade lo mid q)"
  by pat_completeness auto
termination
  by (relation "measure (\<lambda>(lo, hi, q). nat (hi - lo))") auto

declare binade.simps [simp del]

text \<open>The integer nearest to \<open>q\<close>; of two nearest integers, the even one.\<close>

definition round_half_even :: "rat \<Rightarrow> int" where
  "round_half_even q =
     (let f = \<lfloor>q\<rfloor>; d = q - of_int f
      in if d < 1 / 2 then f else if 1 / 2 < d then f + 1 else if even f then f else f + 1)"

text \<open>
  Rounding to nearest, ties to even, of a magnitude \<open>q \<ge> 0\<close>: doubles have a significand
  of 53 bits and binary exponents from -1022 to 1023, so that the doubles between \<open>2\<^sup>e\<close>
  and \<open>2\<^sup>e\<^sup>+\<^sup>1\<close> are the multiples of \<open>2\<^sup>e\<^sup>-\<^sup>5\<^sup>2\<close>, and those below \<open>2\<^sup>-\<^sup>1\<^sup>0\<^sup>2\<^sup>2\<close> the multiples of
  \<open>2\<^sup>-\<^sup>1\<^sup>0\<^sup>7\<^sup>4\<close>. The result is \<open>None\<close> when the rounded magnitude reaches \<open>2\<^sup>1\<^sup>0\<^sup>2\<^sup>4\<close>
  (overflow).
\<close>

definition round_magnitude :: "rat \<Rightarrow> rat option" where
  "round_magnitude q =
     (if pow2 1024 \<le> q then None
      else
        let e = (if q < pow2 (- 1022) then - 1022 else binade (- 1022) 1024 q);
            ulp = pow2 (e - 52);
            r = of_int (round_half_even (q / ulp)) * ulp
        in if pow2 1024 \<le> r then None else Some r)"

text \<open>The double that an exact result \<open>q\<close> is rounded to; an overflow gives an infinity.\<close>

definition round_double :: "rat \<Rightarrow> jsnum" where
  "round_double q =
     (if 0 \<le> q then (case round_magnitude q of None \<Rightarrow> PosInfinity | Some r \<Rightarrow> Fin r)
      else (case round_magnitude (- q) of None \<Rightarrow> NegInfinity | Some r \<Rightarrow> Fin (- r)))"

text \<open>
  A term \<open>Fin q\<close> whose \<open>q\<close> is not itself a double stands for the double nearest to \<open>q\<close>,
  as the decimal literal \<^verbatim>\<open>0.1\<close> does in a program: every operation reads its operands
  through \<open>number\<close>, which leaves a double as it is.
\<close>

fun number :: "jsnum \<Rightarrow> jsnum" where
  "number (Fin q) = round_double q"
| "number n = n"

text \<open>\<^verbatim>\<open>a < b\<close> on numbers: every comparison with NaN is false.\<close>

fun less_value :: "jsnum \<Rightarrow> jsnum \<Rightarrow> bool" where
  "less_value NaN _ = False"
| "less_value _ NaN = False"
| "less_value (Fin a) (Fin b) = (a < b)"
| "less_value (Fin _) PosInfinity = True"
| "less_value (Fin _) NegInfinity = False"
| "less_value PosInfinity _ = False"
| "less_value NegInfinity NegInfinity = False"
| "less_value NegInfinity _ = True"

definition js_less :: "jsnum \<Rightarrow> jsnum \<Rightarrow> bool" where
  "js_less a b = less_value (number a) (number b)"

text \<open>\<^verbatim>\<open>a <= b\<close> on numbers: false with a NaN, and otherwise the negation of \<^verbatim>\<open>b < a\<close>.\<close>

definition js_le :: "jsnum \<Rightarrow> jsnum \<Rightarrow> bool" where
  "js_le a b \<longleftrightarrow> number a \<noteq> NaN \<and> number b \<noteq> NaN \<and> \<not> less_value (number b) (number a)"

text \<open>
  \<^verbatim>\<open>a + b\<close> and \<^verbatim>\<open>a - b\<close> on numbers: the exact sum of two finite values, rounded to a
  double.
\<close>

fun add_value :: "jsnum \<Rightarrow> jsnum \<Rightarrow> jsnum" where
  "add_value NaN _ = NaN"
| "add_value _ NaN = NaN"
| "add_value (Fin a) (Fin b) = round_double (a + b)"
| "add_value PosInfinity NegInfinity = NaN"
| "add_value NegInfinity PosInfinity = NaN"
| "add_value PosInfinity _ = PosInfinity"
| "add_value NegInfinity _ = NegInfinity"
| "add_value (Fin _) b = b"

fun js_neg :: "jsnum \<Rightarrow> jsnum" where
  "js_neg (Fin a) = Fin (- a)"
| "js_neg PosInfinity = NegInfinity"
| "js_neg NegInfinity = PosInfinity"
| "js_neg NaN = NaN"

definition js_add :: "jsnum \<Rightarrow> jsnum \<Rightarrow> jsnum" where
  "js_add a b = add_value (number a) (number b)"

definition js_sub :: "jsnum \<Rightarrow> jsnum \<Rightarrow> jsnum" where
  "js_sub a b = add_value (number a) (js_neg (number b))"

text \<open>\<^verbatim>\<open>Math.max(a, b)\<close>: NaN if either argument is NaN.\<close>

definition Math_max :: "jsnum \<Rightarrow> jsnum \<Rightarrow> jsnum" where
  "Math_max a b =
     (if number a = NaN \<or> number b = NaN then NaN else if js_less a b then b else a)"

subsection \<open>Untyped values\<close>

text \<open>
  Untyped values, as \<^verbatim>\<open>JSON.parse\<close> and a Firestore document deliver them. An object
  is its list of properties; a property read takes the first entry of that name.
\<close>

datatype jsvalue =
    JUndefined
  | JNull
  | JBool bool
  | JNum jsnum
  | JStr string
  | JArr "jsvalue list"
  | JObj "(string \<times> jsvalue) list"

text \<open>\<^verbatim>\<open>!value\<close> is \<open>\<not> truthy value\<close>.\<close>

fun truthy :: "jsvalue \<Rightarrow> bool" where
  "truthy JUndefined = False"
| "truthy JNull = False"
| "truthy (JBool b) = b"
| "truthy (JNum n) = (number n \<noteq> NaN \<and> number n \<noteq> Fin 0)"
| "truthy (JStr s) = (s \<noteq> [])"
| "truthy (JArr _) = True"
| "truthy (JObj _) = True"

text \<open>\<^verbatim>\<open>typeof v === 'object'\<close>, \<^verbatim>\<open>typeof v === 'number'\<close>, \<^verbatim>\<open>typeof v === 'string'\<close>.\<close>

fun typeof_object :: "jsvalue \<Rightarrow> bool" where
  "typeof_object JNull = True"
| "typeof_object (JArr _) = True"
| "typeof_object (JObj _) = True"
| "typeof_object _ = False"

fun typeof_number :: "jsvalue \<Rightarrow> bool" where
  "typeof_number (JNum _) = True"
| "typeof_number _ = False"

fun typeof_string :: "jsvalue \<Rightarrow> bool" where
  "typeof_string (JStr _) = True"
| "typeof_string _ = False"

text \<open>\<^verbatim>\<open>Number.isFinite(v)\<close>: false for every value that is not a finite number.\<close>

fun Number_isFinite :: "jsvalue \<Rightarrow> bool" where
  "Number_isFinite (JNum n) = (case number n of Fin _ \<Rightarrow> True | _ \<Rightarrow> False)"
| "Number_isFinite _ = False"

text \<open>\<^verbatim>\<open>Array.isArray(v)\<close>.\<close>

fun Array_isArray :: "jsvalue \<Rightarrow> bool" where
  "Array_isArray (JArr _) = True"
| "Array_isArray _ = False"

text \<open>
  The property read \<^verbatim>\<open>v.name\<close> on a value that is neither null nor undefined: a
  missing property, and any of the property names used here on an array, is undefined.
\<close>

fun property :: "jsvalue \<Rightarrow> string \<Rightarrow> jsvalue" where
  "property (JObj kvs) name = (case map_of kvs name of Some v \<Rightarrow> v | None \<Rightarrow> JUndefined)"
| "property _ name = JUndefined"

text \<open>The string, number and elements of a value already tested to be one.\<close>

fun the_string :: "jsvalue \<Rightarrow> string" where
  "the_string (JStr s) = s"
| "the_string _ = []"

fun the_number :: "jsvalue \<Rightarrow> jsnum" where
  "the_number (JNum n) = n"
| "the_number _ = NaN"

fun the_elements :: "jsvalue \<Rightarrow> jsvalue list" where
  "the_elements (JArr vs) = vs"
| "the_elements _ = []"

section \<open>Ledger data\<close>

datatype tx_kind = credit | debit

record BankTransaction =
  tx_id :: string
  tx_type :: tx_kind
  tx_amount :: jsnum
  tx_note :: string
  tx_createdAt :: string

record BankState =
  balance :: jsnum
  transactions :: "BankTransaction list"

definition defaultBankState :: BankState where
  "defaultBankState = \<lparr>balance = Fin 0, transactions = []\<rparr>"

text \<open>A typed state as the untyped value that is written to a remote document.\<close>

definition kind_value :: "tx_kind \<Rightarrow> jsvalue" where
  "kind_value k = (case k of credit \<Rightarrow> JStr ''credit'' | debit \<Rightarrow> JStr ''debit'')"

definition transaction_value :: "BankTransaction \<Rightarrow> jsvalue" where
  "transaction_value t =
     JObj [(''id'', JStr (tx_id t)), (''type'', kind_value (tx_type t)),
           (''amount'', JNum (tx_amount t)), (''note'', JStr (tx_note t)),
           (''createdAt'', JStr (tx_createdAt t))]"

definition state_value :: "BankState \<Rightarrow> jsvalue" where
  "state_value s =
     JObj [(''balance'', JNum (balance s)),
           (''transactions'', JArr (map transaction_value (transactions s)))]"

text \<open>
  The value \<^verbatim>\<open>JSON.parse\<close> reads back from \<^verbatim>\<open>JSON.stringify(state)\<close>: a number that is
  not finite is written as \<^verbatim>\<open>null\<close>.
\<close>

definition JSON_number :: "jsnum \<Rightarrow> jsvalue" where
  "JSON_number n = (if Number_isFinite (JNum n) then JNum n else JNull)"

definition JSON_transaction :: "BankTransaction \<Rightarrow> jsvalue" where
  "JSON_transaction t =
     JObj [(''id'', JStr (tx_id t)), (''type'', kind_value (tx_type t)),
           (''amount'', JSON_number (tx_amount t)), (''note'', JStr (tx_note t)),
           (''createdAt'', JStr (tx_createdAt t))]"

definition JSON_state :: "BankState \<Rightarrow> jsvalue" where
  "JSON_state s =
     JObj [(''balance'', JSON_number (balance s)),
           (''transactions'', JArr (map JSON_transaction (transactions s)))]"

section \<open>State Normalizer\<close>

text \<open>
  \<^verbatim>\<open>normalizeState\<close> has the same text in all three ledger modules. The callback given
  to \<^verbatim>\<open>map\<close> is \<open>normalizeItem\<close>, with \<open>None\<close> for its \<^verbatim>\<open>null\<close>; the \<^verbatim>\<open>filter\<close> that
  follows drops the \<^verbatim>\<open>null\<close>s.
\<close>

definition normalizeItem :: "jsvalue \<Rightarrow> BankTransaction option" where
  "normalizeItem item =
     (if \<not> truthy item \<or> \<not> typeof_object item then None
      else if \<not> typeof_string (property item ''id'') \<or>
              (property item ''type'' \<noteq> JStr ''credit'' \<and> property item ''type'' \<noteq> JStr ''debit'') \<or>
              \<not> typeof_number (property item ''amount'') \<or>
              \<not> Number_isFinite (property item ''amount'') \<or>
              \<not> typeof_string (property item ''note'') \<or>
              \<not> typeof_string (property item ''createdAt'')
      then None
      else Some \<lparr>tx_id = the_string (property item ''id''),
                 tx_type = (if property item ''type'' = JStr ''credit'' then credit else debit),
                 tx_amount = the_number (property item ''amount''),
                 tx_note = the_string (property item ''note''),
                 tx_createdAt = the_string (property item ''createdAt'')\<rparr>)"

definition normalizeState :: "jsvalue \<Rightarrow> BankState" where
  "normalizeState v =
     (if \<not> truthy v \<or> \<not> typeof_object v then defaultBankState
      else
        \<lparr>balance =
           (if typeof_number (property v ''balance'') \<and> Number_isFinite (property v ''balance'')
            then Math_max (Fin 0) (the_number (property v ''balance''))
            else Fin 0),
         transactions =
           (if Array_isArray (property v ''transactions'')
            then List.map_filter normalizeItem (the_elements (property v ''transactions''))
            else [])\<rparr>)"

text \<open>
  What the normalizer establishes of the state it returns: a finite balance that
  \<^verbatim>\<open>Math.max(0, balance)\<close> leaves as it is, and a finite amount in every transaction.
  It does not look at the sign of an amount.
\<close>

definition finite_num :: "jsnum \<Rightarrow> bool" where
  "finite_num n = Number_isFinite (JNum n)"

definition normalized :: "BankState \<Rightarrow> bool" where
  "normalized s \<longleftrightarrow>
     finite_num (balance s) \<and> Math_max (Fin 0) (balance s) = balance s \<and>
     list_all (\<lambda>t. finite_num (tx_amount t)) (transactions s)"

section \<open>Strings\<close>

text \<open>
  A string is the list of the bytes of its UTF-8 encoding. \<open>code_points\<close> cuts it into
  its characters: a byte \<^verbatim>\<open>110xxxxx\<close> begins a character of two bytes, \<^verbatim>\<open>1110xxxx\<close> one of
  three, \<^verbatim>\<open>11110xxx\<close> one of four, and any other byte is taken alone.
\<close>

definition sequence_length :: "char \<Rightarrow> nat" where
  "sequence_length c =
     (if \<not> digit7 c \<or> \<not> digit6 c then 1
      else if \<not> digit5 c then 2
      else if \<not> digit4 c then 3
      else 4)"

fun code_points :: "string \<Rightarrow> string list" where
  "code_points [] = []"
| "code_points (c # cs) =
     (c # take (sequence_length c - 1) cs) # code_points (drop (sequence_length c - 1) cs)"

text \<open>
  The white space of ECMAScript, which \<^verbatim>\<open>trim\<close> removes and \<^verbatim>\<open>\s\<close> matches: TAB, LF, VT,
  FF, CR, SPACE, U+00A0, U+1680, U+2000 to U+200A, U+2028, U+2029, U+202F, U+205F,
  U+3000 and U+FEFF.
\<close>

definition white_space :: "string list" where
  "white_space =
     [[CHR 0x09], [CHR 0x0A], [CHR 0x0B], [CHR 0x0C], [CHR 0x0D], [CHR 0x20],
      [CHR 0xC2, CHR 0xA0], [CHR 0xE1, CHR 0x9A, CHR 0x80],
      [CHR 0xE2, CHR 0x80, CHR 0x80], [CHR 0xE2, CHR 0x80, CHR 0x81],
      [CHR 0xE2, CHR 0x80, CHR 0x82], [CHR 0xE2, CHR 0x80, CHR 0x83],
      [CHR 0xE2, CHR 0x80, CHR 0x84], [CHR 0xE2, CHR 0x80, CHR 0x85],
      [CHR 0xE2, CHR 0x80, CHR 0x86], [CHR 0xE2, CHR 0x80, CHR 0x87],
      [CHR 0xE2, CHR 0x80, CHR 0x88], [CHR 0xE2, CHR 0x80, CHR 0x89],
      [CHR 0xE2, CHR 0x80, CHR 0x8A], [CHR 0xE2, CHR 0x80, CHR 0xA8],
      [CHR 0xE2, CHR 0x80, CHR 0xA9], [CHR 0xE2, CHR 0x80, CHR 0xAF],
      [CHR 0xE2, CHR 0x81, CHR 0x9F], [CHR 0xE3, CHR 0x80, CHR 0x80],
      [CHR 0xEF, CHR 0xBB, CHR 0xBF]]"

definition is_space :: "string \<Rightarrow> bool" where
  "is_space c \<longleftrightarrow> c \<in> set white_space"

definition trim :: "string \<Rightarrow> string" where
  "trim s = concat (rev (dropWhile is_space (rev (dropWhile is_space (code_points s)))))"

text \<open>\<^verbatim>\<open>s.replace(/\s+/g, '')\<close>.\<close>

definition remove_spaces :: "string \<Rightarrow> string" where
  "remove_spaces s = concat (filter (\<lambda>c. \<not> is_space c) (code_points s))"

text \<open>
  \<^verbatim>\<open>toUpperCase\<close>: the letters of ASCII, and the characters outside ASCII whose upper
  case is made of ASCII letters (U+00DF, U+0131, U+017F and the ligatures U+FB00 to
  U+FB06). Every other character is left as it is; the upper case of such a character
  lies outside ASCII as the character does.
\<close>

definition upper_case_table :: "(string \<times> string) list" where
  "upper_case_table =
     map (\<lambda>(l, u). ([l], [u])) (zip ''abcdefghijklmnopqrstuvwxyz'' ''ABCDEFGHIJKLMNOPQRSTUVWXYZ'') @
     [([CHR 0xC3, CHR 0x9F], ''SS''), ([CHR 0xC4, CHR 0xB1], ''I''), ([CHR 0xC5, CHR 0xBF], ''S''),
      ([CHR 0xEF, CHR 0xAC, CHR 0x80], ''FF''), ([CHR 0xEF, CHR 0xAC, CHR 0x81], ''FI''),
      ([CHR 0xEF, CHR 0xAC, CHR 0x82], ''FL''), ([CHR 0xEF, CHR 0xAC, CHR 0x83], ''FFI''),
      ([CHR 0xEF, CHR 0xAC, CHR 0x84], ''FFL''), ([CHR 0xEF, CHR 0xAC, CHR 0x85], ''ST''),
      ([CHR 0xEF, CHR 0xAC, CHR 0x86], ''ST'')]"

definition upper_case :: "string \<Rightarrow> string" where
  "upper_case c = (case map_of upper_case_table c of Some u \<Rightarrow> u | None \<Rightarrow> c)"

definition toUpperCase :: "string \<Rightarrow> string" where
  "toUpperCase s = concat (map upper_case (code_points s))"

text \<open>The character classes \<^verbatim>\<open>[A-Z0-9]\<close> and \<^verbatim>\<open>[a-zA-Z0-9]\<close>.\<close>

definition is_upper_alnum :: "char \<Rightarrow> bool" where
  "is_upper_alnum c \<longleftrightarrow> c \<in> set ''ABCDEFGHIJKLMNOPQRSTUVWXYZ0123456789''"

definition is_alnum :: "char \<Rightarrow> bool" where
  "is_alnum c \<longleftrightarrow>
     c \<in> set ''abcdefghijklmnopqrstuvwxyzABCDEFGHIJKLMNOPQRSTUVWXYZ0123456789''"

text \<open>The test \<^verbatim>\<open>/^BM[A-Z0-9]{6,}$/.test(value)\<close>.\<close>

definition matches_account_pattern :: "string \<Rightarrow> bool" where
  "matches_account_pattern s \<longleftrightarrow>
     take 2 s = ''BM'' \<and> 6 \<le> length (drop 2 s) \<and> list_all is_upper_alnum (drop 2 s)"

text \<open>
  The decimal rendering of a natural number: \<^verbatim>\<open>String(n)\<close> and \<^verbatim>\<open>`${n}`\<close> for an integer
  \<open>n\<close> from 0 to \<open>10\<^sup>2\<^sup>1 - 1\<close>, which the readings of the clock are.
\<close>

definition digit_char :: "nat \<Rightarrow> char" where
  "digit_char d = ''0123456789'' ! d"

fun toString_nat :: "nat \<Rightarrow> string" where
  "toString_nat n =
     (if n < 10 then [digit_char n] else toString_nat (n div 10) @ [digit_char (n mod 10)])"

declare toString_nat.simps [simp del]

text \<open>\<^verbatim>\<open>s.slice(-k)\<close>: the last \<open>k\<close> characters, or all of \<open>s\<close> when it is shorter.\<close>

definition slice_last :: "nat \<Rightarrow> string \<Rightarrow> string" where
  "slice_last k s = drop (length s - k) s"

text \<open>
  \<^verbatim>\<open>String(x)\<close> for a double \<open>x \<ge> 10\<^sup>2\<^sup>1\<close>, which is an integer of \<open>n\<close> digits: the
  shortest decimal \<open>s \<times> 10\<^sup>n\<^sup>-\<^sup>k\<close>, with \<open>s\<close> of \<open>k\<close> digits, that rounds to \<open>x\<close>, printed
  in exponent form. Of two such \<open>s\<close> the nearer to \<open>x\<close> is taken, and the even one if both
  are as near. (\<open>k = 17\<close> always succeeds for a double.)
\<close>

definition digits_at :: "nat \<Rightarrow> nat \<Rightarrow> rat \<Rightarrow> nat option" where
  "digits_at k n q =
     (let unit = 10 ^ (n - k);
          lo = nat \<lfloor>q / unit\<rfloor>;
          hi = lo + 1;
          lo_ok = (round_double (of_nat lo * unit) = Fin q);
          hi_ok = (hi < 10 ^ k \<and> round_double (of_nat hi * unit) = Fin q)
      in if lo_ok \<and> hi_ok
         then (if q - of_nat lo * unit < of_nat hi * unit - q then Some lo
               else if of_nat hi * unit - q < q - of_nat lo * unit then Some hi
               else if even lo then Some lo else Some hi)
         else if lo_ok then Some lo
         else if hi_ok then Some hi
         else None)"

function shortest_digits :: "nat \<Rightarrow> nat \<Rightarrow> rat \<Rightarrow> nat" where
  "shortest_digits k n q =
     (case digits_at k n q of
        Some s \<Rightarrow> s
      | None \<Rightarrow> if 17 \<le> k then nat \<lfloor>q / 10 ^ (n - k)\<rfloor> else shortest_digits (k + 1) n q)"
  by pat_completeness auto
termination
  by (relation "measure (\<lambda>(k, n, q). 17 - k)") auto

declare shortest_digits.simps [simp del]

definition exponent_form :: "rat \<Rightarrow> string" where
  "exponent_form q =
     (let n = length (toString_nat (nat \<lfloor>q\<rfloor>))
      in if round_double (10 ^ n) = Fin q then ''1e+'' @ toString_nat n
         else
           let ds = toString_nat (shortest_digits 1 n q)
           in (if length ds = 1 then ds else hd ds # ''.'' @ tl ds) @ ''e+'' @
              toString_nat (n - 1))"

text \<open>
  \<^verbatim>\<open>x.toFixed(2)\<close>: the sign, then \<^verbatim>\<open>String\<close> of the magnitude from \<open>10\<^sup>2\<^sup>1\<close> on, and below
  it the integer \<open>n\<close> for which \<open>n / 100\<close> is nearest to the magnitude (the larger of two),
  printed with two decimals.
\<close>

definition toFixed2 :: "jsnum \<Rightarrow> string" where
  "toFixed2 x =
     (case number x of
        NaN \<Rightarrow> ''NaN''
      | PosInfinity \<Rightarrow> ''Infinity''
      | NegInfinity \<Rightarrow> ''-Infinity''
      | Fin q \<Rightarrow>
          (if q < 0 then ''-'' else []) @
          (if 10 ^ 21 \<le> \<bar>q\<bar> then exponent_form \<bar>q\<bar>
           else
             let n = nat \<lfloor>\<bar>q\<bar> * 100 + 1 / 2\<rfloor>
             in toString_nat (n div 100) @ ''.'' @
                [digit_char (n mod 100 div 10), digit_char (n mod 10)]))"

section \<open>The environment: clock, random numbers, storage, identity\<close>

text \<open>
  The modules run against the device's key-value cache (AsyncStorage), the remote
  document store (Firestore), the identity provider, the clock and the random number
  generator. All of it is one explicit state:

  \<^item> \<open>clock\<close>: the successive readings of \<^verbatim>\<open>Date.now()\<close>, in milliseconds (0 once the
    list is used up);
  \<^item> \<open>dates\<close>: the successive results of \<^verbatim>\<open>new Date().toISOString()\<close> (the first
    millisecond of 1970 once the list is used up);
  \<^item> \<open>randoms\<close>: the successive values of \<^verbatim>\<open>Math.floor(Math.random() * 9000)\<close>;
  \<^item> \<open>faults\<close>: for each successive call to Firestore, whether it rejects (no call
    rejects once the list is used up);
  \<^item> \<open>firebaseConfigured\<close> and \<open>currentUser\<close> (\<^verbatim>\<open>auth?.currentUser?.uid\<close>);
  \<^item> AsyncStorage, by the two kinds of item the modules keep: \<open>textItems\<close> are read as
    plain strings (account numbers), \<open>jsonItems\<close> are read through \<^verbatim>\<open>JSON.parse\<close> and
    are represented by the value they parse to; an item that is absent, empty or does
    not parse is \<open>None\<close> (the modules treat the three alike). Calls to AsyncStorage
    do not fail;
  \<^item> Firestore: the documents \<^verbatim>\<open>users/{uid}\<close> with their fields \<^verbatim>\<open>accountNumber\<close> and
    \<^verbatim>\<open>bankState\<close>, the documents \<^verbatim>\<open>bankAccounts/{accountNumber}\<close> with their field
    \<^verbatim>\<open>uid\<close>, and the legacy documents \<^verbatim>\<open>users/{uid}/bank/state\<close>. Server timestamps
    and fields no ledger function reads are left out.
\<close>

record userDoc =
  accountNumber :: jsvalue
  bankState :: jsvalue

record world =
  clock :: "nat list"
  dates :: "string list"
  randoms :: "nat list"
  faults :: "bool list"
  firebaseConfigured :: bool
  currentUser :: "string option"
  textItems :: "string \<rightharpoonup> string"
  jsonItems :: "string \<rightharpoonup> jsvalue"
  users :: "string \<rightharpoonup> userDoc"
  bankAccounts :: "string \<rightharpoonup> jsvalue"
  legacyBank :: "string \<rightharpoonup> jsvalue"

datatype js_error = Error string | FirebaseError

definition Date_now :: "world \<Rightarrow> nat \<times> world" where
  "Date_now w = (case clock w of [] \<Rightarrow> (0, w) | t # ts \<Rightarrow> (t, w\<lparr>clock := ts\<rparr>))"

text \<open>
  \<^verbatim>\<open>new Date().toISOString()\<close>: the string is the environment's; how the platform
  renders the time as a calendar date is not modelled, and no ledger function parses
  the string.
\<close>

definition new_Date_toISOString :: "world \<Rightarrow> string \<times> world" where
  "new_Date_toISOString w =
     (case dates w of
        [] \<Rightarrow> (''1970-01-01T00:00:00.000Z'', w)
      | d # ds \<Rightarrow> (d, w\<lparr>dates := ds\<rparr>))"

text \<open>\<^verbatim>\<open>Math.floor(1000 + Math.random() * 9000)\<close>, an integer from 1000 to 9999.\<close>

definition random4 :: "world \<Rightarrow> nat \<times> world" where
  "random4 w =
     (case randoms w of
        [] \<Rightarrow> (1000, w)
      | r # rs \<Rightarrow> (1000 + r mod 9000, w\<lparr>randoms := rs\<rparr>))"

text \<open>Every call to Firestore first asks the environment whether it rejects.\<close>

definition firestoreCall :: "world \<Rightarrow> bool \<times> world" where
  "firestoreCall w = (case faults w of [] \<Rightarrow> (False, w) | f # fs \<Rightarrow> (f, w\<lparr>faults := fs\<rparr>))"

text \<open>\<^verbatim>\<open>getDoc\<close> on the three kinds of document; \<open>None\<close> is a snapshot that does not exist.\<close>

definition getDoc_user :: "string \<Rightarrow> world \<Rightarrow> (js_error + userDoc option) \<times> world" where
  "getDoc_user uid w =
     (let (rejected, w1) = firestoreCall w
      in if rejected then (Inl FirebaseError, w1) else (Inr (users w1 uid), w1))"

definition getDoc_bankAccount :: "string \<Rightarrow> world \<Rightarrow> (js_error + jsvalue option) \<times> world" where
  "getDoc_bankAccount acc w =
     (let (rejected, w1) = firestoreCall w
      in if rejected then (Inl FirebaseError, w1) else (Inr (bankAccounts w1 acc), w1))"

definition getDoc_legacy :: "string \<Rightarrow> world \<Rightarrow> (js_error + jsvalue option) \<times> world" where
  "getDoc_legacy uid w =
     (let (rejected, w1) = firestoreCall w
      in if rejected then (Inl FirebaseError, w1) else (Inr (legacyBank w1 uid), w1))"

text \<open>
  \<^verbatim>\<open>setDoc(ref, data, { merge: true })\<close> on a user document: the fields given are
  written, the others are kept, and the document is created if it does not exist.
\<close>

definition merge_user :: "jsvalue option \<Rightarrow> jsvalue option \<Rightarrow> userDoc option \<Rightarrow> userDoc" where
  "merge_user acc st old =
     (let d0 = (case old of
                  None \<Rightarrow> \<lparr>accountNumber = JUndefined, bankState = JUndefined\<rparr>
                | Some d \<Rightarrow> d);
          d1 = (case acc of None \<Rightarrow> d0 | Some a \<Rightarrow> d0\<lparr>accountNumber := a\<rparr>)
      in (case st of None \<Rightarrow> d1 | Some b \<Rightarrow> d1\<lparr>bankState := b\<rparr>))"

definition write_user :: "string \<Rightarrow> jsvalue option \<Rightarrow> jsvalue option \<Rightarrow> world \<Rightarrow> world" where
  "write_user uid acc st w = w\<lparr>users := (users w)(uid \<mapsto> merge_user acc st (users w uid))\<rparr>"

definition setDoc_user ::
  "string \<Rightarrow> jsvalue option \<Rightarrow> jsvalue option \<Rightarrow> world \<Rightarrow> (js_error + unit) \<times> world" where
  "setDoc_user uid acc st w =
     (let (rejected, w1) = firestoreCall w
      in if rejected then (Inl FirebaseError, w1) else (Inr (), write_user uid acc st w1))"

definition setDoc_bankAccount :: "string \<Rightarrow> string \<Rightarrow> world \<Rightarrow> (js_error + unit) \<times> world" where
  "setDoc_bankAccount acc uid w =
     (let (rejected, w1) = firestoreCall w
      in if rejected then (Inl FirebaseError, w1)
         else (Inr (), w1\<lparr>bankAccounts := (bankAccounts w1)(acc \<mapsto> JStr uid)\<rparr>))"

text \<open>\<^verbatim>\<open>snapshot.data()?.field\<close> for a snapshot that may not exist.\<close>

definition data_accountNumber :: "userDoc option \<Rightarrow> jsvalue" where
  "data_accountNumber snap = (case snap of None \<Rightarrow> JUndefined | Some d \<Rightarrow> accountNumber d)"

definition data_bankState :: "userDoc option \<Rightarrow> jsvalue" where
  "data_bankState snap = (case snap of None \<Rightarrow> JUndefined | Some d \<Rightarrow> bankState d)"

definition data_uid :: "jsvalue option \<Rightarrow> jsvalue" where
  "data_uid snap = (case snap of None \<Rightarrow> JUndefined | Some u \<Rightarrow> u)"

text \<open>\<^verbatim>\<open>typeof v === 'string' && v.trim()\<close>, as a condition.\<close>

definition nonblank_string :: "jsvalue \<Rightarrow> bool" where
  "nonblank_string v \<longleftrightarrow> typeof_string v \<and> trim (the_string v) \<noteq> []"

text \<open>The amount guard \<^verbatim>\<open>Number.isFinite(amount) ? amount : 0\<close> of every ledger operation.\<close>

definition safeAmount :: "jsnum \<Rightarrow> jsnum" where
  "safeAmount amount = (if Number_isFinite (JNum amount) then amount else Fin 0)"

text \<open>
  The account number \<^verbatim>\<open>generateAccountNumber\<close> builds, the same in both modules that
  have it: \<^verbatim>\<open>BM\<close>, the last six digits of the clock, four random digits.
\<close>

definition generateAccountNumber :: "world \<Rightarrow> string \<times> world" where
  "generateAccountNumber w =
     (let (now, w1) = Date_now w;
          nowPart = slice_last 6 (toString_nat now);
          (r, w2) = random4 w1;
          randomPart = toString_nat r
      in (''BM'' @ nowPart @ randomPart, w2))"

text \<open>
  Every credit and every debit builds its next state with the same object literal:
  \<^verbatim>\<open>{ balance: previous.balance + safeAmount, transactions: [{ id, type: 'credit',
  amount: safeAmount, note, createdAt }, ...previous.transactions] }\<close>, and the same with
  \<^verbatim>\<open>-\<close> and \<^verbatim>\<open>'debit'\<close>. The two literals are written once here.
\<close>

definition creditedState :: "BankState \<Rightarrow> jsnum \<Rightarrow> string \<Rightarrow> string \<Rightarrow> string \<Rightarrow> BankState" where
  "creditedState previousState amount ident note created =
     \<lparr>balance = js_add (balance previousState) amount,
      transactions =
        \<lparr>tx_id = ident, tx_type = credit, tx_amount = amount, tx_note = note,
         tx_createdAt = created\<rparr> # transactions previousState\<rparr>"

definition debitedState :: "BankState \<Rightarrow> jsnum \<Rightarrow> string \<Rightarrow> string \<Rightarrow> string \<Rightarrow> BankState" where
  "debitedState previousState amount ident note created =
     \<lparr>balance = js_sub (balance previousState) amount,
      transactions =
        \<lparr>tx_id = ident, tx_type = debit, tx_amount = amount, tx_note = note,
         tx_createdAt = created\<rparr> # transactions previousState\<rparr>"

section \<open>The local ledger module\<close>

text \<open>The module \<^verbatim>\<open>src/unnamed/part_000\<close>: one ledger in the device cache, no accounts.\<close>

definition BANK_STORAGE_KEY :: string where
  "BANK_STORAGE_KEY = ''billmate:bank-state''"

definition saveBankState_local :: "BankState \<Rightarrow> world \<Rightarrow> world" where
  "saveBankState_local st w =
     w\<lparr>jsonItems := (jsonItems w)(BANK_STORAGE_KEY \<mapsto> JSON_state st)\<rparr>"

definition getBankState_local :: "world \<Rightarrow> BankState" where
  "getBankState_local w =
     (case jsonItems w BANK_STORAGE_KEY of
        None \<Rightarrow> defaultBankState
      | Some v \<Rightarrow> normalizeState v)"

text \<open>The default of the parameter \<^verbatim>\<open>note\<close> is \<^verbatim>\<open>'Added money'\<close>; the model takes it explicitly.\<close>

definition addVirtualMoney_local :: "jsnum \<Rightarrow> string \<Rightarrow> world \<Rightarrow> BankState \<times> world" where
  "addVirtualMoney_local amount note w =
     (if js_le (safeAmount amount) (Fin 0) then (getBankState_local w, w)
      else
        let previousState = getBankState_local w;
            (t1, w1) = Date_now w;
            (d2, w2) = new_Date_toISOString w1;
            nextState = creditedState previousState (safeAmount amount)
                          (''tx-'' @ toString_nat t1) note d2
        in (nextState, saveBankState_local nextState w2))"

text \<open>
  The result \<^verbatim>\<open>{ ok, state, message? }\<close> of a debit, and \<^verbatim>\<open>{ ok, state, message }\<close> of a
  payment.
\<close>

record DeductResult =
  ok :: bool
  state :: BankState
  message :: "string option"

definition tryDeductVirtualMoney_local :: "jsnum \<Rightarrow> string \<Rightarrow> world \<Rightarrow> DeductResult \<times> world" where
  "tryDeductVirtualMoney_local amount note w =
     (let previousState = getBankState_local w
      in if js_le (safeAmount amount) (Fin 0)
         then (\<lparr>ok = False, state = previousState, message = Some ''Invalid amount.''\<rparr>, w)
         else if js_less (balance previousState) (safeAmount amount)
         then (\<lparr>ok = False, state = previousState,
                message = Some (''Insufficient balance. Available: '' @
                                toFixed2 (balance previousState))\<rparr>, w)
         else
           let (t1, w1) = Date_now w;
               (d2, w2) = new_Date_toISOString w1;
               nextState = debitedState previousState (safeAmount amount)
                             (''tx-'' @ toString_nat t1) note d2
           in (\<lparr>ok = True, state = nextState, message = None\<rparr>,
               saveBankState_local nextState w2))"

section \<open>The bank application's ledger module\<close>

text \<open>
  The module \<^verbatim>\<open>src/BankApp/lib/bank.ts\<close>. Its functions keep their names; in this module
  \<^verbatim>\<open>db\<close> is non-null exactly when \<^verbatim>\<open>firebaseConfigured\<close> holds.
\<close>

definition localBankKey :: "string \<Rightarrow> string" where
  "localBankKey uid = ''bankapp:bank-state:'' @ uid"

definition localAccountKey :: "string \<Rightarrow> string" where
  "localAccountKey uid = ''bankapp:account-number:'' @ uid"

definition getLocalBankState :: "string \<Rightarrow> world \<Rightarrow> BankState" where
  "getLocalBankState uid w =
     (case jsonItems w (localBankKey uid) of
        None \<Rightarrow> defaultBankState
      | Some v \<Rightarrow> normalizeState v)"

definition saveLocalBankState :: "string \<Rightarrow> BankState \<Rightarrow> world \<Rightarrow> world" where
  "saveLocalBankState uid st w =
     w\<lparr>jsonItems := (jsonItems w)(localBankKey uid \<mapsto> JSON_state st)\<rparr>"

definition saveCloudBankState :: "string \<Rightarrow> BankState \<Rightarrow> world \<Rightarrow> bool \<times> world" where
  "saveCloudBankState uid st w =
     (if \<not> firebaseConfigured w then (False, w)
      else case setDoc_user uid None (Some (state_value st)) w of
             (Inl _, w1) \<Rightarrow> (False, w1)
           | (Inr _, w1) \<Rightarrow> (True, w1))"

definition getUidByAccountNumber :: "string \<Rightarrow> world \<Rightarrow> string option \<times> world" where
  "getUidByAccountNumber accountNo w =
     (if \<not> firebaseConfigured w then (None, w)
      else
        let normalized = toUpperCase (trim accountNo)
        in if normalized = [] then (None, w)
           else case getDoc_bankAccount normalized w of
                  (Inl _, w1) \<Rightarrow> (None, w1)
                | (Inr snapshot, w1) \<Rightarrow>
                    (if nonblank_string (data_uid snapshot)
                     then Some (the_string (data_uid snapshot)) else None, w1))"

definition syncAccountNumberToCloud :: "string \<Rightarrow> string \<Rightarrow> world \<Rightarrow> (js_error + unit) \<times> world" where
  "syncAccountNumberToCloud uid accountNo w =
     (if \<not> firebaseConfigured w then (Inr (), w)
      else
        let normalized = toUpperCase (trim accountNo)
        in if normalized = [] then (Inr (), w)
           else case getDoc_bankAccount normalized w of
                  (Inl e, w1) \<Rightarrow> (Inl e, w1)
                | (Inr mappingSnapshot, w1) \<Rightarrow>
                    if nonblank_string (data_uid mappingSnapshot) \<and>
                       data_uid mappingSnapshot \<noteq> JStr uid
                    then (Inr (), w1)
                    else (case setDoc_bankAccount normalized uid w1 of
                            (Inl e, w2) \<Rightarrow> (Inl e, w2)
                          | (Inr _, w2) \<Rightarrow>
                              setDoc_user uid (Some (JStr normalized)) None w2))"

text \<open>\<^verbatim>\<open>AsyncStorage.setItem(localAccountKey(uid), accountNumber)\<close>.\<close>

definition setLocalAccount :: "string \<Rightarrow> string \<Rightarrow> world \<Rightarrow> world" where
  "setLocalAccount uid accountNo w =
     w\<lparr>textItems := (textItems w)(localAccountKey uid \<mapsto> accountNo)\<rparr>"

text \<open>
  The three lines that end four paths of \<^verbatim>\<open>ensureBankAccountForUser\<close>: generate a number,
  store it in the cache, return it.
\<close>

definition localFallback :: "string \<Rightarrow> world \<Rightarrow> string \<times> world" where
  "localFallback uid w =
     (let (fallback, w1) = generateAccountNumber w
      in (fallback, setLocalAccount uid fallback w1))"

text \<open>
  The body given to \<^verbatim>\<open>runTransaction\<close>, run atomically on the remote store. The call as
  a whole may reject; the body itself throws \<^verbatim>\<open>bank-account-conflict\<close> when the candidate
  is taken, and then nothing is written.
\<close>

definition reserveTransaction :: "string \<Rightarrow> string \<Rightarrow> world \<Rightarrow> (js_error + string) \<times> world" where
  "reserveTransaction uid candidate w =
     (let (rejected, w1) = firestoreCall w
      in if rejected then (Inl FirebaseError, w1)
         else
           let latestExisting = data_accountNumber (users w1 uid)
           in if nonblank_string latestExisting then (Inr (the_string latestExisting), w1)
              else if bankAccounts w1 candidate \<noteq> None
              then (Inl (Error ''bank-account-conflict''), w1)
              else (Inr candidate,
                    write_user uid (Some (JStr candidate)) (Some (state_value defaultBankState))
                      (w1\<lparr>bankAccounts := (bankAccounts w1)(candidate \<mapsto> JStr uid)\<rparr>)))"

text \<open>The loop \<^verbatim>\<open>for (attempt = 0; attempt < 8; ...)\<close> with the fallback that follows it.\<close>

fun reserveAttempts :: "nat \<Rightarrow> string \<Rightarrow> world \<Rightarrow> string \<times> world" where
  "reserveAttempts 0 uid w = localFallback uid w"
| "reserveAttempts (Suc n) uid w =
     (let (candidate, w1) = generateAccountNumber w
      in case reserveTransaction uid candidate w1 of
           (Inr accountNo, w2) \<Rightarrow> (accountNo, setLocalAccount uid accountNo w2)
         | (Inl e, w2) \<Rightarrow>
             if e = Error ''bank-account-conflict'' then reserveAttempts n uid w2
             else localFallback uid w2)"

definition ensureBankAccountForUser ::
  "string \<Rightarrow> world \<Rightarrow> (js_error + string option) \<times> world" where
  "ensureBankAccountForUser uid w =
     (if uid = [] then (Inr None, w)
      else
        let localStored = textItems w (localAccountKey uid)
        in if localStored \<noteq> None \<and> localStored \<noteq> Some []
           then case syncAccountNumberToCloud uid (the localStored) w of
                  (Inl e, w1) \<Rightarrow> (Inl e, w1)
                | (Inr _, w1) \<Rightarrow> (Inr localStored, w1)
           else if \<not> firebaseConfigured w
           then let (localAccount, w1) = generateAccountNumber w
                in (Inr (Some localAccount), setLocalAccount uid localAccount w1)
           else case getDoc_user uid w of
                  (Inl _, w1) \<Rightarrow>
                    (let (fallback, w2) = localFallback uid w1 in (Inr (Some fallback), w2))
                | (Inr userSnapshot, w1) \<Rightarrow>
                    let existingAccount = data_accountNumber userSnapshot
                    in if nonblank_string existingAccount
                       then case syncAccountNumberToCloud uid (the_string existingAccount)
                                   (setLocalAccount uid (the_string existingAccount) w1) of
                              (Inl _, w2) \<Rightarrow>
                                (let (fallback, w3) = localFallback uid w2
                                 in (Inr (Some fallback), w3))
                            | (Inr _, w2) \<Rightarrow> (Inr (Some (the_string existingAccount)), w2)
                       else let (accountNo, w2) = reserveAttempts 8 uid w1
                            in (Inr (Some accountNo), w2))"

text \<open>\<^verbatim>\<open>!uid\<close> for \<^verbatim>\<open>uid = auth?.currentUser?.uid\<close>: nobody is signed in, or the uid is empty.\<close>

definition noUid :: "world \<Rightarrow> bool" where
  "noUid w \<longleftrightarrow> currentUser w = None \<or> currentUser w = Some []"

text \<open>
  \<^verbatim>\<open>hasUserBankState\<close>: the user document carries an object with an array
  \<^verbatim>\<open>transactions\<close>.
\<close>

definition hasUserBankState :: "jsvalue \<Rightarrow> bool" where
  "hasUserBankState b \<longleftrightarrow>
     typeof_object b \<and> b \<noteq> JNull \<and> Array_isArray (property b ''transactions'')"

definition getBankState :: "world \<Rightarrow> BankState \<times> world" where
  "getBankState w =
     (if noUid w then (defaultBankState, w)
      else
        let uid = the (currentUser w)
        in if \<not> firebaseConfigured w then (getLocalBankState uid w, w)
           else case getDoc_user uid w of
                  (Inl _, w1) \<Rightarrow> (getLocalBankState uid w1, w1)
                | (Inr userSnapshot, w1) \<Rightarrow>
                    if userSnapshot \<noteq> None \<and> hasUserBankState (data_bankState userSnapshot)
                    then (normalizeState (data_bankState userSnapshot),
                          saveLocalBankState uid (normalizeState (data_bankState userSnapshot)) w1)
                    else (case getDoc_legacy uid w1 of
                            (Inl _, w2) \<Rightarrow> (getLocalBankState uid w2, w2)
                          | (Inr (Some legacy), w2) \<Rightarrow>
                              (case setDoc_user uid None
                                      (Some (state_value (normalizeState legacy))) w2 of
                                 (Inl _, w3) \<Rightarrow> (getLocalBankState uid w3, w3)
                               | (Inr _, w3) \<Rightarrow>
                                   (normalizeState legacy,
                                    saveLocalBankState uid (normalizeState legacy) w3))
                          | (Inr None, w2) \<Rightarrow>
                              (case setDoc_user uid None
                                      (Some (state_value defaultBankState)) w2 of
                                 (Inl _, w3) \<Rightarrow> (getLocalBankState uid w3, w3)
                               | (Inr _, w3) \<Rightarrow> (defaultBankState, w3))))"

record AddVirtualMoneyResult =
  a_state :: BankState
  persistedToCloud :: bool

definition addVirtualMoney ::
  "jsnum \<Rightarrow> string \<Rightarrow> world \<Rightarrow> (js_error + AddVirtualMoneyResult) \<times> world" where
  "addVirtualMoney amount note w =
     (if noUid w then (Inl (Error ''You must be logged in to add money.''), w)
      else
        let uid = the (currentUser w)
        in if js_le (safeAmount amount) (Fin 0)
           then let (currentState, w1) = getBankState w
                in (Inr \<lparr>a_state = currentState, persistedToCloud = firebaseConfigured w\<rparr>, w1)
           else case ensureBankAccountForUser uid w of
                  (Inl e, w1) \<Rightarrow> (Inl e, w1)
                | (Inr _, w1) \<Rightarrow>
                    let (previousState, w2) = getBankState w1;
                        (t1, w3) = Date_now w2;
                        (d2, w4) = new_Date_toISOString w3;
                        nextState = creditedState previousState (safeAmount amount)
                                      (''tx-'' @ toString_nat t1) note d2
                    in if firebaseConfigured w4
                       then case setDoc_user uid None (Some (state_value nextState)) w4 of
                              (Inr _, w5) \<Rightarrow>
                                (Inr \<lparr>a_state = nextState, persistedToCloud = True\<rparr>,
                                 saveLocalBankState uid nextState w5)
                            | (Inl _, w5) \<Rightarrow>
                                (Inr \<lparr>a_state = nextState, persistedToCloud = False\<rparr>,
                                 saveLocalBankState uid nextState w5)
                       else (Inr \<lparr>a_state = nextState, persistedToCloud = False\<rparr>,
                             saveLocalBankState uid nextState w4))"

record TransferResult =
  t_ok :: bool
  t_message :: string
  t_state :: BankState

definition transferToAccountByNumber ::
  "string \<Rightarrow> jsnum \<Rightarrow> string \<Rightarrow> world \<Rightarrow> (js_error + TransferResult) \<times> world" where
  "transferToAccountByNumber targetAccountNumber amount note w =
     (if noUid w
      then (Inr \<lparr>t_ok = False, t_message = ''You must be logged in to make payment.'',
                 t_state = defaultBankState\<rparr>, w)
      else
        let senderUid = the (currentUser w);
            normalizedTarget = toUpperCase (trim targetAccountNumber)
        in if \<not> matches_account_pattern normalizedTarget
           then let (senderState, w1) = getBankState w
                in (Inr \<lparr>t_ok = False, t_message = ''Invalid receiver account number.'',
                         t_state = senderState\<rparr>, w1)
           else case ensureBankAccountForUser senderUid w of
                  (Inl e, w1) \<Rightarrow> (Inl e, w1)
                | (Inr senderAccountNumber, w1) \<Rightarrow>
                    if senderAccountNumber \<noteq> None \<and> senderAccountNumber \<noteq> Some [] \<and>
                       toUpperCase (trim (the senderAccountNumber)) = normalizedTarget
                    then let (senderState, w2) = getBankState w1
                         in (Inr \<lparr>t_ok = False,
                                  t_message = ''You cannot pay your own account.'',
                                  t_state = senderState\<rparr>, w2)
                    else
                      let (senderState, w2) = getBankState w1
                      in if js_le (safeAmount amount) (Fin 0)
                         then (Inr \<lparr>t_ok = False, t_message = ''Enter a valid amount.'',
                                    t_state = senderState\<rparr>, w2)
                         else if js_less (balance senderState) (safeAmount amount)
                         then (Inr \<lparr>t_ok = False,
                                    t_message = ''Insufficient balance. Available: '' @
                                                toFixed2 (balance senderState),
                                    t_state = senderState\<rparr>, w2)
                         else
                           let (receiverUid, w3) = getUidByAccountNumber normalizedTarget w2
                           in if receiverUid = None \<or> receiverUid = Some []
                              then (Inr \<lparr>t_ok = False,
                                         t_message = ''Receiver account not found.'',
                                         t_state = senderState\<rparr>, w3)
                              else
                               (case getDoc_user (the receiverUid) w3 of
                                  (Inl e, w4) \<Rightarrow> (Inl e, w4)
                                | (Inr receiverSnapshot, w4) \<Rightarrow>
                                    let receiverState =
                                          normalizeState (data_bankState receiverSnapshot);
                                        (t1, w5) = Date_now w4;
                                        (d2, w6) = new_Date_toISOString w5;
                                        senderNextState =
                                          debitedState senderState (safeAmount amount)
                                            (''tx-'' @ toString_nat t1 @ ''-debit'')
                                            (note @ '' to '' @ normalizedTarget)
                                            d2;
                                        (t3, w7) = Date_now w6;
                                        (d4, w8) = new_Date_toISOString w7;
                                        receiverNextState =
                                          creditedState receiverState (safeAmount amount)
                                            (''tx-'' @ toString_nat t3 @ ''-credit'')
                                            (note @ '' from '' @
                                               (case senderAccountNumber of
                                                  Some a \<Rightarrow> a | None \<Rightarrow> senderUid))
                                            d4;
                                        (senderSaved, w9) =
                                          saveCloudBankState senderUid senderNextState w8;
                                        (receiverSaved, w10) =
                                          saveCloudBankState (the receiverUid)
                                            receiverNextState w9;
                                        w11 = saveLocalBankState senderUid senderNextState w10;
                                        w12 = saveLocalBankState (the receiverUid)
                                                receiverNextState w11
                                    in if \<not> senderSaved \<or> \<not> receiverSaved
                                       then (Inr \<lparr>t_ok = False,
                                                  t_message = ''Payment partially saved locally. Cloud sync failed.'',
                                                  t_state = senderNextState\<rparr>, w12)
                                       else (Inr \<lparr>t_ok = True,
                                                  t_message = ''Payment successful: '' @
                                                    toFixed2 (safeAmount amount) @ '' to '' @
                                                    normalizedTarget,
                                                  t_state = senderNextState\<rparr>, w12)))"

section \<open>The subscription application's ledger module\<close>

text \<open>
  The module behind \<^verbatim>\<open>src/app/savings.tsx\<close> (its second document, lines 149 to 839). Where
  a function has the name of one of the bank application's, the model's name ends in
  \<open>_app\<close>. In this module \<^verbatim>\<open>db\<close> is always defined.
\<close>

record BankOwnerContext =
  cloudOwnerUid :: "string option"
  localOwnerKey :: string

definition LOCAL_ACCOUNT_UID_MAP_KEY :: string where
  "LOCAL_ACCOUNT_UID_MAP_KEY = ''billmate:bank-account-uid-map''"

definition linkedAccountStorageKey :: "string \<Rightarrow> string" where
  "linkedAccountStorageKey uid = ''billmate:linked-bank-account:'' @ uid"

definition localAccountStorageKey :: "string \<Rightarrow> string" where
  "localAccountStorageKey uid = ''billmate:bank-account-number:'' @ uid"

definition localBankStorageKey :: "string \<Rightarrow> string" where
  "localBankStorageKey ownerKey = ''billmate:bank-state:'' @ ownerKey"

definition normalizeAccountNumber :: "string \<Rightarrow> string" where
  "normalizeAccountNumber v = remove_spaces (toUpperCase (trim v))"

definition isValidAccountNumber :: "string \<Rightarrow> bool" where
  "isValidAccountNumber v = matches_account_pattern v"

text \<open>A string or null from the cache or a lookup, used as a condition.\<close>

definition present :: "string option \<Rightarrow> bool" where
  "present v \<longleftrightarrow> v \<noteq> None \<and> v \<noteq> Some []"

definition saveLocalBankState_app :: "string \<Rightarrow> BankState \<Rightarrow> world \<Rightarrow> world" where
  "saveLocalBankState_app ownerKey st w =
     w\<lparr>jsonItems := (jsonItems w)(localBankStorageKey ownerKey \<mapsto> JSON_state st)\<rparr>"

text \<open>
  \<^verbatim>\<open>Object.entries\<close> of a parsed value. The uid map in memory is the list of its
  entries in insertion order; \<^verbatim>\<open>map[key] = value\<close> is \<open>AList.update\<close>.
\<close>

definition Object_entries :: "jsvalue \<Rightarrow> (string \<times> jsvalue) list" where
  "Object_entries v =
     (case v of
        JObj kvs \<Rightarrow> AList.clearjunk kvs
      | JArr vs \<Rightarrow> zip (map toString_nat [0..<length vs]) vs
      | _ \<Rightarrow> [])"

definition getLocalUidMap :: "world \<Rightarrow> (string \<times> string) list" where
  "getLocalUidMap w =
     (case jsonItems w LOCAL_ACCOUNT_UID_MAP_KEY of
        None \<Rightarrow> []
      | Some parsed \<Rightarrow>
          if \<not> truthy parsed \<or> \<not> typeof_object parsed then []
          else fold (\<lambda>(key, v) result.
                       if nonblank_string v
                       then AList.update (normalizeAccountNumber key) (the_string v) result
                       else result)
                 (Object_entries parsed) [])"

definition saveLocalUidMap :: "(string \<times> string) list \<Rightarrow> world \<Rightarrow> world" where
  "saveLocalUidMap m w =
     w\<lparr>jsonItems := (jsonItems w)
          (LOCAL_ACCOUNT_UID_MAP_KEY \<mapsto> JObj (map (\<lambda>(k, v). (k, JStr v)) m))\<rparr>"

definition registerLocalAccountMapping :: "string \<Rightarrow> string \<Rightarrow> world \<Rightarrow> world" where
  "registerLocalAccountMapping accountNo uid w =
     (let normalized = normalizeAccountNumber accountNo
      in if normalized = [] \<or> uid = [] then w
         else
           let w1 = w\<lparr>textItems := (textItems w)(localAccountStorageKey uid \<mapsto> normalized)\<rparr>
           in saveLocalUidMap (AList.update normalized uid (getLocalUidMap w1)) w1)"

definition getLocalUidByAccountNumber :: "string \<Rightarrow> world \<Rightarrow> string option" where
  "getLocalUidByAccountNumber accountNo w =
     (let normalized = normalizeAccountNumber accountNo
      in if normalized = [] then None else map_of (getLocalUidMap w) normalized)"

text \<open>
  The loop \<^verbatim>\<open>for (attempt = 0; attempt < 10; ...)\<close> of \<^verbatim>\<open>getOrCreateLocalAccountNumber\<close>
  over the uid map read before it, with the deterministic fallback that follows it.
\<close>

fun localAttempts :: "nat \<Rightarrow> string \<Rightarrow> (string \<times> string) list \<Rightarrow> world \<Rightarrow> string \<times> world" where
  "localAttempts 0 uid uidMap w =
     (let fallback = ''BM'' @ toUpperCase (take 10 (filter is_alnum uid))
      in (fallback,
          saveLocalUidMap (AList.update fallback uid uidMap)
            (w\<lparr>textItems := (textItems w)(localAccountStorageKey uid \<mapsto> fallback)\<rparr>)))"
| "localAttempts (Suc n) uid uidMap w =
     (let (candidate, w1) = generateAccountNumber w
      in if \<not> present (map_of uidMap candidate)
         then (candidate,
               saveLocalUidMap (AList.update candidate uid uidMap)
                 (w1\<lparr>textItems := (textItems w1)(localAccountStorageKey uid \<mapsto> candidate)\<rparr>))
         else localAttempts n uid uidMap w1)"

definition getOrCreateLocalAccountNumber :: "string \<Rightarrow> world \<Rightarrow> string \<times> world" where
  "getOrCreateLocalAccountNumber uid w =
     (let stored = textItems w (localAccountStorageKey uid)
      in if present stored
         then let normalizedStored = normalizeAccountNumber (the stored)
              in (normalizedStored, registerLocalAccountMapping normalizedStored uid w)
         else localAttempts 10 uid (getLocalUidMap w) w)"

definition saveCloudBankState_app :: "string \<Rightarrow> BankState \<Rightarrow> world \<Rightarrow> (js_error + unit) \<times> world" where
  "saveCloudBankState_app ownerUid st w = setDoc_user ownerUid None (Some (state_value st)) w"

definition persistStateForOwner :: "BankOwnerContext \<Rightarrow> BankState \<Rightarrow> world \<Rightarrow> world" where
  "persistStateForOwner ownerContext st w =
     (if present (cloudOwnerUid ownerContext)
      then case saveCloudBankState_app (the (cloudOwnerUid ownerContext)) st w of
             (Inr _, w1) \<Rightarrow> w1
           | (Inl _, w1) \<Rightarrow> saveLocalBankState_app (localOwnerKey ownerContext) st w1
      else saveLocalBankState_app (localOwnerKey ownerContext) st w)"

definition getUidByAccountNumber_app :: "string \<Rightarrow> world \<Rightarrow> string option \<times> world" where
  "getUidByAccountNumber_app accountNo w =
     (let normalized = normalizeAccountNumber accountNo
      in if normalized = [] \<or> \<not> isValidAccountNumber normalized then (None, w)
         else if firebaseConfigured w
         then case getDoc_bankAccount normalized w of
                (Inl _, w1) \<Rightarrow> (getLocalUidByAccountNumber normalized w1, w1)
              | (Inr mappingSnapshot, w1) \<Rightarrow>
                  if mappingSnapshot \<noteq> None \<and> typeof_string (data_uid mappingSnapshot)
                  then (Some (the_string (data_uid mappingSnapshot)),
                        registerLocalAccountMapping normalized
                          (the_string (data_uid mappingSnapshot)) w1)
                  else (getLocalUidByAccountNumber normalized w1, w1)
         else (getLocalUidByAccountNumber normalized w, w))"

definition ensureCloudBankDoc :: "string \<Rightarrow> world \<Rightarrow> (js_error + BankState) \<times> world" where
  "ensureCloudBankDoc ownerUid w =
     (case getDoc_user ownerUid w of
        (Inl e, w1) \<Rightarrow> (Inl e, w1)
      | (Inr userSnapshot, w1) \<Rightarrow>
          if userSnapshot \<noteq> None \<and> hasUserBankState (data_bankState userSnapshot)
          then (Inr (normalizeState (data_bankState userSnapshot)), w1)
          else (case getDoc_legacy ownerUid w1 of
                  (Inl e, w2) \<Rightarrow> (Inl e, w2)
                | (Inr (Some legacy), w2) \<Rightarrow>
                    (case saveCloudBankState_app ownerUid (normalizeState legacy) w2 of
                       (Inl e, w3) \<Rightarrow> (Inl e, w3)
                     | (Inr _, w3) \<Rightarrow> (Inr (normalizeState legacy), w3))
                | (Inr None, w2) \<Rightarrow>
                    (case setDoc_user ownerUid None (Some (state_value defaultBankState)) w2 of
                       (Inl e, w3) \<Rightarrow> (Inl e, w3)
                     | (Inr _, w3) \<Rightarrow> (Inr defaultBankState, w3))))"

definition getLocalBankState_app :: "string \<Rightarrow> world \<Rightarrow> BankState" where
  "getLocalBankState_app ownerKey w =
     (case jsonItems w (localBankStorageKey ownerKey) of
        None \<Rightarrow> defaultBankState
      | Some v \<Rightarrow> normalizeState v)"

definition reserveTransaction_app :: "string \<Rightarrow> string \<Rightarrow> world \<Rightarrow> (js_error + string) \<times> world" where
  "reserveTransaction_app uid candidate w =
     (let (rejected, w1) = firestoreCall w
      in if rejected then (Inl FirebaseError, w1)
         else
           let latestExisting = data_accountNumber (users w1 uid)
           in if nonblank_string latestExisting
              then (Inr (normalizeAccountNumber (the_string latestExisting)), w1)
              else if bankAccounts w1 candidate \<noteq> None
              then (Inl (Error ''bank-account-conflict''), w1)
              else (Inr candidate,
                    write_user uid (Some (JStr candidate)) (Some (state_value defaultBankState))
                      (w1\<lparr>bankAccounts := (bankAccounts w1)(candidate \<mapsto> JStr uid)\<rparr>)))"

fun reserveAttempts_app :: "nat \<Rightarrow> string \<Rightarrow> world \<Rightarrow> string \<times> world" where
  "reserveAttempts_app 0 uid w = getOrCreateLocalAccountNumber uid w"
| "reserveAttempts_app (Suc n) uid w =
     (let (candidate, w1) = generateAccountNumber w
      in case reserveTransaction_app uid candidate w1 of
           (Inr accountNo, w2) \<Rightarrow> (accountNo, registerLocalAccountMapping accountNo uid w2)
         | (Inl e, w2) \<Rightarrow>
             if e = Error ''bank-account-conflict'' then reserveAttempts_app n uid w2
             else getOrCreateLocalAccountNumber uid w2)"

definition ensureBankAccountForUser_app :: "string \<Rightarrow> world \<Rightarrow> string option \<times> world" where
  "ensureBankAccountForUser_app uid w =
     (if uid = [] then (None, w)
      else
        let existingLocalAccount = textItems w (localAccountStorageKey uid)
        in if present existingLocalAccount
           then let normalizedLocal = normalizeAccountNumber (the existingLocalAccount)
                in (Some normalizedLocal, registerLocalAccountMapping normalizedLocal uid w)
           else if \<not> firebaseConfigured w
           then let (a, w1) = getOrCreateLocalAccountNumber uid w in (Some a, w1)
           else case getDoc_user uid w of
                  (Inl _, w1) \<Rightarrow>
                    (let (a, w2) = getOrCreateLocalAccountNumber uid w1 in (Some a, w2))
                | (Inr userSnapshot, w1) \<Rightarrow>
                    let existingAccountNumber = data_accountNumber userSnapshot
                    in if nonblank_string existingAccountNumber
                       then let normalizedExisting =
                                  normalizeAccountNumber (the_string existingAccountNumber)
                            in (Some normalizedExisting,
                                registerLocalAccountMapping normalizedExisting uid w1)
                       else let (a, w2) = reserveAttempts_app 8 uid w1 in (Some a, w2))"

definition resolveBankOwnerContext :: "world \<Rightarrow> BankOwnerContext \<times> world" where
  "resolveBankOwnerContext w =
     (if noUid w then (\<lparr>cloudOwnerUid = None, localOwnerKey = ''guest''\<rparr>, w)
      else
        let currentUid = the (currentUser w);
            (ownAccountNumber, w1) = ensureBankAccountForUser_app currentUid w;
            linkedAccountNumber = textItems w1 (linkedAccountStorageKey currentUid);
            own = \<lparr>cloudOwnerUid = (if firebaseConfigured w then Some currentUid else None),
                   localOwnerKey = (if present ownAccountNumber
                                    then ''acc:'' @ the ownAccountNumber
                                    else ''uid:'' @ currentUid)\<rparr>
        in if present linkedAccountNumber
           then let (linkedUid, w2) = getUidByAccountNumber_app (the linkedAccountNumber) w1
                in if present linkedUid
                   then (\<lparr>cloudOwnerUid = (if firebaseConfigured w then linkedUid else None),
                          localOwnerKey =
                            ''acc:'' @ normalizeAccountNumber (the linkedAccountNumber)\<rparr>, w2)
                   else (own,
                         w2\<lparr>textItems :=
                              (textItems w2)(linkedAccountStorageKey currentUid := None)\<rparr>)
           else (own, w1))"

definition getBankState_app :: "world \<Rightarrow> BankState \<times> world" where
  "getBankState_app w =
     (let (ownerContext, w1) = resolveBankOwnerContext w
      in if present (cloudOwnerUid ownerContext)
         then case ensureCloudBankDoc (the (cloudOwnerUid ownerContext)) w1 of
                (Inr st, w2) \<Rightarrow> (st, w2)
              | (Inl _, w2) \<Rightarrow> (getLocalBankState_app ''guest'' w2, w2)
         else (getLocalBankState_app (localOwnerKey ownerContext) w1, w1))"

definition addVirtualMoney_app :: "jsnum \<Rightarrow> string \<Rightarrow> world \<Rightarrow> BankState \<times> world" where
  "addVirtualMoney_app amount note w =
     (if js_le (safeAmount amount) (Fin 0) then getBankState_app w
      else
        let (ownerContext, w1) = resolveBankOwnerContext w;
            (previousState, w2) = getBankState_app w1;
            (t1, w3) = Date_now w2;
            (d2, w4) = new_Date_toISOString w3;
            nextState = creditedState previousState (safeAmount amount)
                          (''tx-'' @ toString_nat t1) note d2
        in (nextState, persistStateForOwner ownerContext nextState w4))"

definition tryDeductVirtualMoney_app :: "jsnum \<Rightarrow> string \<Rightarrow> world \<Rightarrow> DeductResult \<times> world" where
  "tryDeductVirtualMoney_app amount note w =
     (let (ownerContext, w1) = resolveBankOwnerContext w;
          (previousState, w2) = getBankState_app w1
      in if js_le (safeAmount amount) (Fin 0)
         then (\<lparr>ok = False, state = previousState, message = Some ''Invalid amount.''\<rparr>, w2)
         else if js_less (balance previousState) (safeAmount amount)
         then (\<lparr>ok = False, state = previousState,
                message = Some (''Insufficient balance. Available: '' @
                                toFixed2 (balance previousState))\<rparr>, w2)
         else
           let (t1, w3) = Date_now w2;
               (d2, w4) = new_Date_toISOString w3;
               nextState = debitedState previousState (safeAmount amount)
                             (''tx-'' @ toString_nat t1) note d2
           in (\<lparr>ok = True, state = nextState, message = None\<rparr>,
               persistStateForOwner ownerContext nextState w4))"

definition payToAccountByNumber ::
  "string \<Rightarrow> jsnum \<Rightarrow> string \<Rightarrow> world \<Rightarrow> (js_error + TransferResult) \<times> world" where
  "payToAccountByNumber accountNo amount note w =
     (let (payerState, w1) = getBankState_app w;
          normalizedAccountNumber = normalizeAccountNumber accountNo
      in if noUid w
         then (Inr \<lparr>t_ok = False, t_message = ''Login required to make payment.'',
                    t_state = payerState\<rparr>, w1)
         else if normalizedAccountNumber = [] \<or> \<not> isValidAccountNumber normalizedAccountNumber
         then (Inr \<lparr>t_ok = False, t_message = ''Invalid receiver account number.'',
                    t_state = payerState\<rparr>, w1)
         else if js_le (safeAmount amount) (Fin 0)
         then (Inr \<lparr>t_ok = False, t_message = ''Invalid amount.'', t_state = payerState\<rparr>, w1)
         else
           let currentUid = the (currentUser w);
               (ownAccountNumber, w2) = ensureBankAccountForUser_app currentUid w1
           in if present ownAccountNumber \<and>
                 normalizeAccountNumber (the ownAccountNumber) = normalizedAccountNumber
              then (Inr \<lparr>t_ok = False, t_message = ''You cannot pay your own account.'',
                         t_state = payerState\<rparr>, w2)
              else if js_less (balance payerState) (safeAmount amount)
              then (Inr \<lparr>t_ok = False,
                         t_message = ''Insufficient balance. Available: '' @
                                     toFixed2 (balance payerState),
                         t_state = payerState\<rparr>, w2)
              else
                let (recipientUid, w3) = getUidByAccountNumber_app normalizedAccountNumber w2
                in if \<not> present recipientUid
                   then (Inr \<lparr>t_ok = False, t_message = ''Receiver account not found.'',
                              t_state = payerState\<rparr>, w3)
                   else
                     let (payerOwnerContext, w4) = resolveBankOwnerContext w3;
                         (t1, w5) = Date_now w4;
                         (d2, w6) = new_Date_toISOString w5;
                         payerNextState =
                           debitedState payerState (safeAmount amount)
                             (''tx-'' @ toString_nat t1 @ ''-debit'')
                             (note @ '' to '' @ normalizedAccountNumber) d2;
                         recipientOwnerContext =
                           \<lparr>cloudOwnerUid =
                              (if firebaseConfigured w then recipientUid else None),
                            localOwnerKey = ''acc:'' @ normalizedAccountNumber\<rparr>
                     in case (if present (cloudOwnerUid recipientOwnerContext)
                              then ensureCloudBankDoc (the recipientUid) w6
                              else (Inr (getLocalBankState_app
                                           (localOwnerKey recipientOwnerContext) w6), w6)) of
                          (Inl e, w7) \<Rightarrow> (Inl e, w7)
                        | (Inr recipientPreviousState, w7) \<Rightarrow>
                            let (t3, w8) = Date_now w7;
                                (d4, w9) = new_Date_toISOString w8;
                                recipientNextState =
                                  creditedState recipientPreviousState (safeAmount amount)
                                    (''tx-'' @ toString_nat t3 @ ''-credit'')
                                    (note @ '' from '' @
                                       (case ownAccountNumber of
                                          Some a \<Rightarrow> a | None \<Rightarrow> currentUid))
                                    d4;
                                w10 = persistStateForOwner payerOwnerContext payerNextState w9;
                                w11 = persistStateForOwner recipientOwnerContext
                                        recipientNextState w10
                            in (Inr \<lparr>t_ok = True,
                                     t_message = ''Paid '' @ toFixed2 (safeAmount amount) @
                                                 '' to '' @ normalizedAccountNumber,
                                     t_state = payerNextState\<rparr>, w11))"

section \<open>The terms of the specification\<close>

text \<open>
  The data model of the specification: a transaction has an amount that is a decimal not
  below 0, and a ledger state has a balance that is a decimal not below 0. \<open>wellFormed\<close>
  says this of a state; a decimal is a finite number.
\<close>

definition wellFormed :: "BankState \<Rightarrow> bool" where
  "wellFormed s \<longleftrightarrow>
     finite_num (balance s) \<and> js_le (Fin 0) (balance s) \<and>
     list_all (\<lambda>t. finite_num (tx_amount t) \<and> js_le (Fin 0) (tx_amount t)) (transactions s)"

text \<open>An amount that is finite and greater than 0.\<close>

definition positive_amount :: "jsnum \<Rightarrow> bool" where
  "positive_amount amount \<longleftrightarrow> finite_num amount \<and> js_less (Fin 0) amount"

text \<open>
  A balance that moved by exactly the amount: the three numbers are finite and, as the
  rationals they are, the balance after is the balance before plus (minus) the amount.
\<close>

definition increased_by_exactly :: "jsnum \<Rightarrow> jsnum \<Rightarrow> jsnum \<Rightarrow> bool" where
  "increased_by_exactly before amount after \<longleftrightarrow>
     (case (number before, number amount, number after) of
        (Fin b, Fin a, Fin r) \<Rightarrow> r = b + a
      | _ \<Rightarrow> False)"

definition decreased_by_exactly :: "jsnum \<Rightarrow> jsnum \<Rightarrow> jsnum \<Rightarrow> bool" where
  "decreased_by_exactly before amount after \<longleftrightarrow>
     (case (number before, number amount, number after) of
        (Fin b, Fin a, Fin r) \<Rightarrow> r = b - a
      | _ \<Rightarrow> False)"

text \<open>
  The relations the code establishes between a ledger state and the state after a credit
  or a debit: the balance is the sum (the difference) JavaScript computes, which is the
  exact one rounded to a double, and exactly one transaction of the right kind, with
  that amount and that note, stands in front of the previous log.
\<close>

definition is_credit_of :: "BankState \<Rightarrow> jsnum \<Rightarrow> string \<Rightarrow> BankState \<Rightarrow> bool" where
  "is_credit_of previous amount note next \<longleftrightarrow>
     balance next = js_add (balance previous) amount \<and>
     (case transactions next of
        [] \<Rightarrow> False
      | t # rest \<Rightarrow> rest = transactions previous \<and> tx_type t = credit \<and>
                    tx_amount t = amount \<and> tx_note t = note)"

definition is_debit_of :: "BankState \<Rightarrow> jsnum \<Rightarrow> string \<Rightarrow> BankState \<Rightarrow> bool" where
  "is_debit_of previous amount note next \<longleftrightarrow>
     balance next = js_sub (balance previous) amount \<and>
     (case transactions next of
        [] \<Rightarrow> False
      | t # rest \<Rightarrow> rest = transactions previous \<and> tx_type t = debit \<and>
                    tx_amount t = amount \<and> tx_note t = note)"

text \<open>
  The ledger in a user's remote document, as every reader of it normalizes it, and the
  field \<^verbatim>\<open>bankState\<close> of the document as it is stored.
\<close>

definition readLedger :: "world \<Rightarrow> string \<Rightarrow> BankState" where
  "readLedger w uid = normalizeState (data_bankState (users w uid))"

definition remoteLedger :: "world \<Rightarrow> string \<Rightarrow> jsvalue" where
  "remoteLedger w uid = data_bankState (users w uid)"

text \<open>The item of the device cache that holds the ledger of an owner key.\<close>

definition cachedLedger_app :: "world \<Rightarrow> string \<Rightarrow> jsvalue option" where
  "cachedLedger_app w ownerKey = jsonItems w (localBankStorageKey ownerKey)"

text \<open>
  The reads \<^verbatim>\<open>transferToAccountByNumber\<close> makes before it writes, as functions of the
  initial state: the sender's state (read after the sender's account is provisioned),
  the receiver's uid, and the name the credit note gives the sender.
\<close>

definition senderRead :: "world \<Rightarrow> BankState \<times> world" where
  "senderRead w = getBankState (snd (ensureBankAccountForUser (the (currentUser w)) w))"

definition receiverLookup :: "string \<Rightarrow> world \<Rightarrow> string option \<times> world" where
  "receiverLookup target w =
     getUidByAccountNumber (toUpperCase (trim target)) (snd (senderRead w))"

definition receiverRead :: "string \<Rightarrow> world \<Rightarrow> BankState" where
  "receiverRead target w =
     readLedger (snd (receiverLookup target w)) (the (fst (receiverLookup target w)))"

definition senderLabel :: "world \<Rightarrow> string" where
  "senderLabel w =
     (case fst (ensureBankAccountForUser (the (currentUser w)) w) of
        Inr (Some a) \<Rightarrow> a
      | _ \<Rightarrow> the (currentUser w))"

text \<open>The same for \<^verbatim>\<open>payToAccountByNumber\<close>, whose payer state is \<open>fst (getBankState_app w)\<close>.\<close>

definition recipientLookup :: "string \<Rightarrow> world \<Rightarrow> string option \<times> world" where
  "recipientLookup target w =
     getUidByAccountNumber_app (normalizeAccountNumber target)
       (snd (ensureBankAccountForUser_app (the (currentUser w)) (snd (getBankState_app w))))"

definition payerContext :: "string \<Rightarrow> world \<Rightarrow> BankOwnerContext \<times> world" where
  "payerContext target w = resolveBankOwnerContext (snd (recipientLookup target w))"

definition recipientPrevious :: "string \<Rightarrow> world \<Rightarrow> (js_error + BankState) \<times> world" where
  "recipientPrevious target w =
     (let w6 = snd (new_Date_toISOString (snd (Date_now (snd (payerContext target w)))))
      in if firebaseConfigured w
         then ensureCloudBankDoc (the (fst (recipientLookup target w))) w6
         else (Inr (getLocalBankState_app (''acc:'' @ normalizeAccountNumber target) w6), w6))"

definition payerLabel :: "world \<Rightarrow> string" where
  "payerLabel w =
     (case fst (ensureBankAccountForUser_app (the (currentUser w)) (snd (getBankState_app w))) of
        Some a \<Rightarrow> a
      | None \<Rightarrow> the (currentUser w))"

section \<open>Example states\<close>

text \<open>
  A device of the local module whose cached ledger holds 5, and one whose ledger holds
  0.1; two provisioned users of the bank application, the signed-in \<open>u1\<close> with 100 and
  \<open>u2\<close> with 0; and the same two users seen from the subscription application.
\<close>

definition localWorld :: world where
  "localWorld =
     \<lparr>clock = [1700000000123], dates = [''2023-11-14T22:13:20.123Z''],
      randoms = [], faults = [],
      firebaseConfigured = False, currentUser = None,
      textItems = Map.empty,
      jsonItems = [''billmate:bank-state'' \<mapsto>
                     state_value \<lparr>balance = Fin 5, transactions = []\<rparr>],
      users = Map.empty, bankAccounts = Map.empty, legacyBank = Map.empty\<rparr>"

definition tenthWorld :: world where
  "tenthWorld =
     localWorld\<lparr>jsonItems := [''billmate:bank-state'' \<mapsto>
                     state_value \<lparr>balance = Fin (1 / 10), transactions = []\<rparr>]\<rparr>"

definition bankWorld :: world where
  "bankWorld =
     \<lparr>clock = [1700000000123, 1700000000124],
      dates = [''2023-11-14T22:13:20.123Z'', ''2023-11-14T22:13:20.124Z''],
      randoms = [], faults = [], firebaseConfigured = True, currentUser = Some ''u1'',
      textItems = [''bankapp:account-number:u1'' \<mapsto> ''BM1234561000''],
      jsonItems = Map.empty,
      users = [''u1'' \<mapsto> \<lparr>accountNumber = JStr ''BM1234561000'',
                          bankState = state_value \<lparr>balance = Fin 100, transactions = []\<rparr>\<rparr>,
               ''u2'' \<mapsto> \<lparr>accountNumber = JStr ''BM6543212000'',
                          bankState = state_value \<lparr>balance = Fin 0, transactions = []\<rparr>\<rparr>],
      bankAccounts = [''BM1234561000'' \<mapsto> JStr ''u1'', ''BM6543212000'' \<mapsto> JStr ''u2''],
      legacyBank = Map.empty\<rparr>"

definition appWorld :: world where
  "appWorld =
     \<lparr>clock = [1700000000123, 1700000000124],
      dates = [''2023-11-14T22:13:20.123Z'', ''2023-11-14T22:13:20.124Z''],
      randoms = [], faults = [], firebaseConfigured = True, currentUser = Some ''u1'',
      textItems = [''billmate:bank-account-number:u1'' \<mapsto> ''BM1234561000''],
      jsonItems = Map.empty,
      users = [''u1'' \<mapsto> \<lparr>accountNumber = JStr ''BM1234561000'',
                          bankState = state_value \<lparr>balance = Fin 100, transactions = []\<rparr>\<rparr>,
               ''u2'' \<mapsto> \<lparr>accountNumber = JStr ''BM6543212000'',
                          bankState = state_value \<lparr>balance = Fin 0, transactions = []\<rparr>\<rparr>],
      bankAccounts = [''BM1234561000'' \<mapsto> JStr ''u1'', ''BM6543212000'' \<mapsto> JStr ''u2''],
      legacyBank = Map.empty\<rparr>"

text \<open>The transfer of 40 from \<open>u1\<close> to the account of \<open>u2\<close>, in each application.\<close>

definition bankRun :: "(js_error + TransferResult) \<times> world" where
  "bankRun = transferToAccountByNumber ''BM6543212000'' (Fin 40) ''QR payment'' bankWorld"




text \<open>
  The transfers of 40 when the remote store rejects the write of the receiver's document
  (the eighth call to Firestore of the bank application's transfer, the fifth of the
  subscription application's) after it accepted the write of the sender's.
\<close>

definition bankWorld_receiverWriteFails :: world where
  "bankWorld_receiverWriteFails =
     bankWorld\<lparr>faults := [False, False, False, False, False, False, False, True]\<rparr>"

definition appWorld_recipientWriteFails :: world where
  "appWorld_recipientWriteFails = appWorld\<lparr>faults := [False, False, False, False, True]\<rparr>"

definition bankRun_receiverWriteFails :: "(js_error + TransferResult) \<times> world" where
  "bankRun_receiverWriteFails =
     transferToAccountByNumber ''BM6543212000'' (Fin 40) ''QR payment''
       bankWorld_receiverWriteFails"

definition appRun_recipientWriteFails :: "(js_error + TransferResult) \<times> world" where
  "appRun_recipientWriteFails =
     payToAccountByNumber ''BM6543212000'' (Fin 40) ''QR payment''
       appWorld_recipientWriteFails"

text \<open>The payment of 0 that \<open>u1\<close> makes to their own account in the subscription application.\<close>

definition selfRun :: "(js_error + TransferResult) \<times> world" where
  "selfRun = payToAccountByNumber ''BM1234561000'' (Fin 0) ''QR payment'' appWorld"

text \<open>
  A user of the bank application whose remote document already carries an account
  number and whose device has none cached; the remote store accepts the first four calls
  and rejects the fifth. \<open>provisioningFirst\<close> is the first call of the allocator, and
  \<open>provisioningSecond\<close> the call that follows it.
\<close>

definition provisioningWorld :: world where
  "provisioningWorld =
     \<lparr>clock = [], dates = [], randoms = [], faults = [False, False, False, False, True],
      firebaseConfigured = True, currentUser = Some ''u1'',
      textItems = Map.empty, jsonItems = Map.empty,
      users = [''u1'' \<mapsto> \<lparr>accountNumber = JStr ''BM1234561000'', bankState = JUndefined\<rparr>],
      bankAccounts = Map.empty, legacyBank = Map.empty\<rparr>"

definition provisioningFirst :: "(js_error + string option) \<times> world" where
  "provisioningFirst = ensureBankAccountForUser ''u1'' provisioningWorld"

definition provisioningSecond :: "(js_error + string option) \<times> world" where
  "provisioningSecond = ensureBankAccountForUser ''u1'' (snd provisioningFirst)"

text \<open>
  A device of the subscription application without a remote store, on which the number
  that every one of the ten attempts generates is already taken by another user.
\<close>

definition collisionWorld :: world where
  "collisionWorld =
     \<lparr>clock = [1700000000123, 1700000000123, 1700000000123, 1700000000123, 1700000000123,
               1700000000123, 1700000000123, 1700000000123, 1700000000123, 1700000000123],
      dates = [], randoms = [], faults = [], firebaseConfigured = False,
      currentUser = Some ''u1'', textItems = Map.empty,
      jsonItems = [''billmate:bank-account-uid-map'' \<mapsto>
                     JObj [(''BM0001231000'', JStr ''u9'')]],
      users = Map.empty, bankAccounts = Map.empty, legacyBank = Map.empty\<rparr>"

text \<open>
  A user of the bank application whose ledger is still in the legacy document, with
  nothing in the device cache, and the transfer to \<^verbatim>\<open>XYZ123\<close> that this user asks for.
\<close>

definition legacyWorld :: world where
  "legacyWorld =
     \<lparr>clock = [], dates = [], randoms = [], faults = [], firebaseConfigured = True,
      currentUser = Some ''u1'', textItems = Map.empty, jsonItems = Map.empty,
      users = Map.empty, bankAccounts = Map.empty,
      legacyBank = [''u1'' \<mapsto> state_value \<lparr>balance = Fin 5, transactions = []\<rparr>]\<rparr>"

definition legacyRun :: "(js_error + TransferResult) \<times> world" where
  "legacyRun = transferToAccountByNumber ''XYZ123'' (Fin 10) ''QR payment'' legacyWorld"

text \<open>
  A stored ledger whose balance is 10 and whose one transaction, otherwise well typed,
  has the amount -3.
\<close>

definition negativeAmountLedger :: jsvalue where
  "negativeAmountLedger =
     JObj [(''balance'', JNum (Fin 10)),
           (''transactions'',
            JArr [JObj [(''id'', JStr ''a''), (''type'', JStr ''credit''),
                        (''amount'', JNum (Fin (- 3))), (''note'', JStr ''refund''),
                        (''createdAt'', JStr ''2023-11-14T22:13:20.123Z'')]])]"

section \<open>Properties of numbers\<close>

lemma pow2_pos: "0 < pow2 k"
  by (simp add: pow2_def)

lemma round_half_even_nonneg: "0 \<le> q \<Longrightarrow> 0 \<le> round_half_even q"
  by (auto simp: round_half_even_def Let_def)

lemma round_magnitude_nonneg:
  assumes "0 \<le> q" "round_magnitude q = Some r"
  shows "0 \<le> r"
proof -
  have "0 \<le> of_int (round_half_even (q / pow2 e)) * pow2 e" for e
    using assms(1) pow2_pos [of e] by (intro mult_nonneg_nonneg) (simp_all add: round_half_even_nonneg)
  with assms(2) show ?thesis
    by (auto simp: round_magnitude_def Let_def split: if_splits)
qed

lemma round_double_nonneg:
  "0 \<le> q \<Longrightarrow> round_double q = PosInfinity \<or> (\<exists>r. round_double q = Fin r \<and> 0 \<le> r)"
  by (auto simp: round_double_def round_magnitude_nonneg split: option.splits)

lemma round_magnitude_zero [simp]: "round_magnitude 0 = Some 0"
  by (simp add: round_magnitude_def round_half_even_def pow2_def)

lemma round_double_nonpos:
  "q \<le> 0 \<Longrightarrow> round_double q = NegInfinity \<or> (\<exists>r. round_double q = Fin r \<and> r \<le> 0)"
  using round_magnitude_nonneg [of "- q"]
  by (cases "q = 0") (auto simp: round_double_def split: option.splits)

lemma round_double_not_NaN [simp]: "round_double q \<noteq> NaN"
  by (simp add: round_double_def split: option.splits)

lemma round_double_zero [simp]: "round_double 0 = Fin 0"
  by (simp add: round_double_def)

lemma number_zero [simp]: "number (Fin 0) = Fin 0"
  by simp

lemma number_NaN [simp]: "number n = NaN \<longleftrightarrow> n = NaN"
  by (cases n) simp_all

text \<open>The numbers that are not negative, and those that are positive, by their values.\<close>

lemma js_le_zero:
  "js_le (Fin 0) n \<longleftrightarrow> number n = PosInfinity \<or> (\<exists>r. number n = Fin r \<and> 0 \<le> r)"
  by (cases "number n") (auto simp: js_le_def)

lemma js_less_zero:
  "js_less (Fin 0) n \<longleftrightarrow> number n = PosInfinity \<or> (\<exists>r. number n = Fin r \<and> 0 < r)"
  by (cases "number n") (auto simp: js_less_def)

lemma finite_num_number: "finite_num n \<longleftrightarrow> (\<exists>r. number n = Fin r)"
  by (cases "number n") (auto simp: finite_num_def)

lemma number_value_nonneg:
  "0 \<le> r \<Longrightarrow> number (Fin r) = PosInfinity \<or> (\<exists>r'. number (Fin r) = Fin r' \<and> 0 \<le> r')"
  using round_double_nonneg [of r] by simp

lemma js_le_zero_round: "0 \<le> q \<Longrightarrow> js_le (Fin 0) (round_double q)"
proof -
  assume q: "0 \<le> q"
  from round_double_nonneg [OF q] show ?thesis
  proof
    assume "round_double q = PosInfinity"
    then show ?thesis by (simp add: js_le_zero)
  next
    assume "\<exists>r. round_double q = Fin r \<and> 0 \<le> r"
    then obtain r where r: "round_double q = Fin r" "0 \<le> r" by blast
    from number_value_nonneg [OF r(2)] r(1) show ?thesis by (simp add: js_le_zero)
  qed
qed

lemma js_add_nonneg:
  assumes "js_le (Fin 0) b" "js_less (Fin 0) a"
  shows "js_le (Fin 0) (js_add b a)"
proof -
  from assms(1) consider "number b = PosInfinity" | x where "number b = Fin x" "0 \<le> x"
    by (auto simp: js_le_zero)
  then show ?thesis
  proof cases
    case 1
    with assms(2) show ?thesis
      by (cases "number a") (auto simp: js_add_def js_less_def js_le_zero)
  next
    case 2
    from assms(2) consider "number a = PosInfinity" | y where "number a = Fin y" "0 < y"
      by (auto simp: js_less_zero)
    then show ?thesis
    proof cases
      case 1
      with 2 show ?thesis by (simp add: js_add_def js_le_zero)
    next
      case (2 y)
      with \<open>number b = Fin x\<close> \<open>0 \<le> x\<close> show ?thesis
        by (simp add: js_add_def js_le_zero_round)
    qed
  qed
qed

lemma js_sub_nonneg:
  assumes "js_le (Fin 0) b" "finite_num a" "\<not> js_less b a"
  shows "js_le (Fin 0) (js_sub b a)"
proof -
  from assms(2) obtain y where y: "number a = Fin y" by (auto simp: finite_num_number)
  from assms(1) consider "number b = PosInfinity" | x where "number b = Fin x" "0 \<le> x"
    by (auto simp: js_le_zero)
  then show ?thesis
  proof cases
    case 1
    with y show ?thesis by (simp add: js_sub_def js_le_zero)
  next
    case (2 x)
    with y assms(3) have "0 \<le> x - y" by (simp add: js_less_def)
    with 2 y show ?thesis
      using js_le_zero_round [of "x - y"] by (simp add: js_sub_def)
  qed
qed

lemma js_less_nonneg_positive:
  "js_le (Fin 0) b \<Longrightarrow> js_less b a \<Longrightarrow> js_less (Fin 0) a"
  by (cases "number b"; cases "number a") (auto simp: js_le_zero js_less_zero js_less_def)

lemma finite_num_zero [simp]: "finite_num (Fin 0)"
  by (simp add: finite_num_def)

lemma js_le_zero_zero [simp]: "js_le (Fin 0) (Fin 0)"
  by (simp add: js_le_zero)

lemma js_less_zero_zero [simp]: "\<not> js_less (Fin 0) (Fin 0)"
  by (simp add: js_less_zero)

lemma safeAmount_positive:
  "\<not> js_le (safeAmount amount) (Fin 0) \<longleftrightarrow> finite_num amount \<and> js_less (Fin 0) amount"
  by (cases "number amount")
     (auto simp: safeAmount_def finite_num_def js_le_def js_less_def)

lemma safeAmount_finite: "finite_num amount \<Longrightarrow> safeAmount amount = amount"
  by (simp add: safeAmount_def finite_num_def)

lemma safeAmount_nonfinite: "\<not> finite_num amount \<Longrightarrow> safeAmount amount = Fin 0"
  by (simp add: safeAmount_def finite_num_def)

lemma Math_max_zero:
  "finite_num b \<Longrightarrow> Math_max (Fin 0) b = (if js_less (Fin 0) b then b else Fin 0)"
  by (auto simp: Math_max_def finite_num_number)

lemma Math_max_zero_idem:
  "finite_num b \<Longrightarrow> Math_max (Fin 0) (Math_max (Fin 0) b) = Math_max (Fin 0) b"
  by (simp add: Math_max_zero)

lemma Math_max_zero_finite: "finite_num b \<Longrightarrow> finite_num (Math_max (Fin 0) b)"
  by (simp add: Math_max_zero)

lemma Math_max_zero_nonneg: "finite_num b \<Longrightarrow> js_le (Fin 0) (Math_max (Fin 0) b)"
  by (auto simp: Math_max_zero js_le_zero js_less_zero)

section \<open>Properties of the normalizer\<close>

lemma typeof_number_the_number: "typeof_number v \<Longrightarrow> v = JNum (the_number v)"
  by (cases v) simp_all

lemma normalizeItem_transaction_value:
  "finite_num (tx_amount t) \<Longrightarrow> normalizeItem (transaction_value t) = Some t"
  by (cases "tx_type t")
     (simp_all add: normalizeItem_def transaction_value_def kind_value_def finite_num_def)

lemma normalizeItem_finite:
  "normalizeItem item = Some t \<Longrightarrow> finite_num (tx_amount t)"
  by (cases "property item ''amount''")
     (auto simp: normalizeItem_def finite_num_def split: if_splits)

lemma map_filter_transaction_values:
  "list_all (\<lambda>t. finite_num (tx_amount t)) ts \<Longrightarrow>
   List.map_filter normalizeItem (map transaction_value ts) = ts"
  by (induction ts) (simp_all add: List.map_filter_simps normalizeItem_transaction_value)

lemma map_filter_finite:
  "list_all (\<lambda>t. finite_num (tx_amount t)) (List.map_filter normalizeItem vs)"
  by (induction vs)
     (auto simp: List.map_filter_simps normalizeItem_finite split: option.splits)

lemma normalized_default: "normalized defaultBankState"
  by (simp add: normalized_def defaultBankState_def Math_max_zero)

lemma normalized_normalizeState: "normalized (normalizeState v)"
proof (cases "\<not> truthy v \<or> \<not> typeof_object v")
  case True
  then show ?thesis by (simp add: normalizeState_def normalized_default)
next
  case False
  show ?thesis
  proof (cases "typeof_number (property v ''balance'') \<and> Number_isFinite (property v ''balance'')")
    case True
    then have "finite_num (the_number (property v ''balance''))"
      using typeof_number_the_number [of "property v ''balance''"] by (simp add: finite_num_def)
    with False True show ?thesis
      by (simp add: normalizeState_def normalized_def map_filter_finite
          Math_max_zero_finite Math_max_zero_idem)
  next
    case False
    with \<open>\<not> (\<not> truthy v \<or> \<not> typeof_object v)\<close> show ?thesis
      by (auto simp: normalizeState_def normalized_def map_filter_finite Math_max_zero)
  qed
qed

lemma normalized_nonneg: "normalized s \<Longrightarrow> js_le (Fin 0) (balance s)"
  using Math_max_zero_nonneg [of "balance s"] by (simp add: normalized_def)

lemma normalized_finite: "normalized s \<Longrightarrow> finite_num (balance s)"
  by (simp add: normalized_def)

lemma normalizeState_state_value:
  assumes "normalized s"
  shows "normalizeState (state_value s) = s"
proof -
  from assms have ts: "list_all (\<lambda>t. finite_num (tx_amount t)) (transactions s)"
    and b: "Number_isFinite (JNum (balance s))" "Math_max (Fin 0) (balance s) = balance s"
    by (simp_all add: normalized_def finite_num_def)
  have "normalizeState (state_value s) =
          \<lparr>balance = balance s, transactions = transactions s\<rparr>"
    using b by (simp add: normalizeState_def state_value_def map_filter_transaction_values [OF ts])
  then show ?thesis by simp
qed

lemma JSON_state_normalized:
  assumes "normalized s"
  shows "JSON_state s = state_value s"
proof -
  from assms have ts: "list_all (\<lambda>t. finite_num (tx_amount t)) (transactions s)"
    and b: "Number_isFinite (JNum (balance s))"
    by (simp_all add: normalized_def finite_num_def)
  from ts have "map JSON_transaction (transactions s) = map transaction_value (transactions s)"
    by (induction "transactions s" arbitrary: s)
       (auto simp: JSON_transaction_def transaction_value_def JSON_number_def finite_num_def
          list_all_iff)
  with b show ?thesis by (simp add: JSON_state_def state_value_def JSON_number_def)
qed

lemma normalizeState_idempotent:
  "normalizeState (state_value (normalizeState x)) = normalizeState x"
  by (rule normalizeState_state_value) (rule normalized_normalizeState)

section \<open>The operations on well-read states\<close>

lemma is_credit_of_creditedState [simp]:
  "is_credit_of s amount note (creditedState s amount i note c)"
  by (simp add: is_credit_of_def creditedState_def)

lemma is_debit_of_debitedState [simp]:
  "is_debit_of s amount note (debitedState s amount i note c)"
  by (simp add: is_debit_of_def debitedState_def)

lemma safeAmount_positive_amount:
  "\<not> js_le (safeAmount amount) (Fin 0) \<longleftrightarrow> positive_amount amount"
  by (simp add: safeAmount_positive positive_amount_def)

lemma positive_safeAmount: "positive_amount amount \<Longrightarrow> safeAmount amount = amount"
  by (simp add: positive_amount_def safeAmount_finite)

lemma nonneg_creditedState:
  "js_le (Fin 0) (balance s) \<Longrightarrow> positive_amount a \<Longrightarrow>
   js_le (Fin 0) (balance (creditedState s a i n c))"
  by (simp add: creditedState_def positive_amount_def js_add_nonneg)

lemma nonneg_debitedState:
  "js_le (Fin 0) (balance s) \<Longrightarrow> finite_num a \<Longrightarrow> \<not> js_less (balance s) a \<Longrightarrow>
   js_le (Fin 0) (balance (debitedState s a i n c))"
  by (simp add: debitedState_def js_sub_nonneg)

lemma nonneg_credited_safe:
  "js_le (Fin 0) (balance s) \<Longrightarrow> \<not> js_le (safeAmount amount) (Fin 0) \<Longrightarrow>
   js_le (Fin 0) (balance (creditedState s (safeAmount amount) i n c))"
  by (auto simp: safeAmount_positive_amount positive_safeAmount intro: nonneg_creditedState)

lemma nonneg_debited_safe:
  "js_le (Fin 0) (balance s) \<Longrightarrow> \<not> js_le (safeAmount amount) (Fin 0) \<Longrightarrow>
   \<not> js_less (balance s) (safeAmount amount) \<Longrightarrow>
   js_le (Fin 0) (balance (debitedState s (safeAmount amount) i n c))"
  by (auto simp: safeAmount_positive safeAmount_finite intro: nonneg_debitedState)

lemma exceeding_amount_positive:
  "normalized s \<Longrightarrow> finite_num amount \<Longrightarrow> js_less (balance s) amount \<Longrightarrow>
   \<not> js_le (safeAmount amount) (Fin 0)"
  by (auto simp: safeAmount_positive dest: normalized_nonneg js_less_nonneg_positive)

lemma normalized_getBankState_local: "normalized (getBankState_local w)"
  by (simp add: getBankState_local_def normalized_default normalized_normalizeState
      split: option.splits)

lemma normalized_getLocalBankState: "normalized (getLocalBankState uid w)"
  by (simp add: getLocalBankState_def normalized_default normalized_normalizeState
      split: option.splits)

lemma normalized_getLocalBankState_app: "normalized (getLocalBankState_app k w)"
  by (simp add: getLocalBankState_app_def normalized_default normalized_normalizeState
      split: option.splits)

lemma normalized_getBankState: "normalized (fst (getBankState w))"
  by (auto simp: getBankState_def Let_def normalized_default normalized_normalizeState
      normalized_getLocalBankState split: prod.splits sum.splits option.splits)

lemma normalized_ensureCloudBankDoc:
  "ensureCloudBankDoc uid w = (Inr s, w') \<Longrightarrow> normalized s"
  by (auto simp: ensureCloudBankDoc_def normalized_default normalized_normalizeState
      split: prod.splits sum.splits option.splits if_splits)

lemma normalized_getBankState_app: "normalized (fst (getBankState_app w))"
  by (auto simp: getBankState_app_def Let_def normalized_getLocalBankState_app
      split: prod.splits sum.splits dest: normalized_ensureCloudBankDoc)

lemma nonneg_getBankState_local: "js_le (Fin 0) (balance (getBankState_local w))"
  by (rule normalized_nonneg) (rule normalized_getBankState_local)

lemma nonneg_getBankState: "js_le (Fin 0) (balance (fst (getBankState w)))"
  by (rule normalized_nonneg) (rule normalized_getBankState)

lemma nonneg_getBankState_app: "js_le (Fin 0) (balance (fst (getBankState_app w)))"
  by (rule normalized_nonneg) (rule normalized_getBankState_app)

lemma nonneg_default: "js_le (Fin 0) (balance defaultBankState)"
  by (rule normalized_nonneg) (rule normalized_default)

lemma nonneg_addVirtualMoney_local:
  "js_le (Fin 0) (balance (fst (addVirtualMoney_local amount note w)))"
  by (simp add: addVirtualMoney_local_def Let_def case_prod_beta nonneg_getBankState_local
      nonneg_credited_safe)

lemma nonneg_addVirtualMoney_app:
  "js_le (Fin 0) (balance (fst (addVirtualMoney_app amount note w)))"
  by (simp add: addVirtualMoney_app_def Let_def case_prod_beta nonneg_getBankState_app
      nonneg_credited_safe)

lemma nonneg_addVirtualMoney:
  "fst (addVirtualMoney amount note w) = Inr r \<Longrightarrow> js_le (Fin 0) (balance (a_state r))"
  by (auto simp: addVirtualMoney_def Let_def case_prod_beta nonneg_getBankState
      nonneg_credited_safe split: if_splits sum.splits)

lemma nonneg_tryDeduct_local:
  "js_le (Fin 0) (balance (state (fst (tryDeductVirtualMoney_local amount note w))))"
  by (simp add: tryDeductVirtualMoney_local_def Let_def case_prod_beta
      nonneg_getBankState_local nonneg_debited_safe)

lemma nonneg_tryDeduct_app:
  "js_le (Fin 0) (balance (state (fst (tryDeductVirtualMoney_app amount note w))))"
  by (simp add: tryDeductVirtualMoney_app_def Let_def case_prod_beta nonneg_getBankState_app
      nonneg_debited_safe)

lemma nonneg_transfer:
  "fst (transferToAccountByNumber target amount note w) = Inr r \<Longrightarrow>
   js_le (Fin 0) (balance (t_state r))"
  by (auto simp: transferToAccountByNumber_def Let_def case_prod_beta nonneg_getBankState
      nonneg_default nonneg_debited_safe split: if_splits sum.splits)

lemma nonneg_pay:
  "fst (payToAccountByNumber target amount note w) = Inr r \<Longrightarrow>
   js_le (Fin 0) (balance (t_state r))"
  by (auto simp: payToAccountByNumber_def Let_def case_prod_beta nonneg_getBankState_app
      nonneg_debited_safe split: if_splits sum.splits)

subsection \<open>Credit\<close>

lemma addVirtualMoney_local_credit:
  "positive_amount amount \<Longrightarrow>
   is_credit_of (getBankState_local w) amount note (fst (addVirtualMoney_local amount note w))"
  using safeAmount_positive_amount [of amount]
  by (simp add: addVirtualMoney_local_def Let_def case_prod_beta positive_safeAmount)

lemma addVirtualMoney_app_credit:
  "positive_amount amount \<Longrightarrow>
   is_credit_of (fst (getBankState_app (snd (resolveBankOwnerContext w)))) amount note
      (fst (addVirtualMoney_app amount note w))"
  using safeAmount_positive_amount [of amount]
  by (simp add: addVirtualMoney_app_def Let_def case_prod_beta positive_safeAmount)

lemma addVirtualMoney_raises:
  assumes "positive_amount amount" "\<not> noUid w"
    "ensureBankAccountForUser (the (currentUser w)) w = (Inl e, w1)"
  shows "addVirtualMoney amount note w = (Inl e, w1)"
  using assms safeAmount_positive_amount [of amount]
  by (simp add: addVirtualMoney_def Let_def)

lemma addVirtualMoney_credit:
  assumes "positive_amount amount" "\<not> noUid w"
    "ensureBankAccountForUser (the (currentUser w)) w = (Inr acc, w1)"
  shows "\<not> isl (fst (addVirtualMoney amount note w)) \<and>
         is_credit_of (fst (getBankState w1)) amount note
           (a_state (projr (fst (addVirtualMoney amount note w))))"
  using assms safeAmount_positive_amount [of amount]
  by (simp add: addVirtualMoney_def Let_def case_prod_beta positive_safeAmount
      split: sum.splits)

lemma increased_by_exactly_js_add:
  assumes "number b = Fin x" "number a = Fin y" "round_double (x + y) = Fin (x + y)"
  shows "increased_by_exactly b a (js_add b a)"
  using assms by (simp add: increased_by_exactly_def js_add_def)

lemma decreased_by_exactly_js_sub:
  assumes "number b = Fin x" "number a = Fin y" "round_double (x - y) = Fin (x - y)"
  shows "decreased_by_exactly b a (js_sub b a)"
  using assms by (simp add: decreased_by_exactly_def js_sub_def)

subsection \<open>Debit\<close>

lemma tryDeduct_local_insufficient:
  assumes "finite_num amount" "js_less (balance (getBankState_local w)) amount"
  shows "tryDeductVirtualMoney_local amount note w =
          (\<lparr>ok = False, state = getBankState_local w,
            message = Some (''Insufficient balance. Available: '' @
                            toFixed2 (balance (getBankState_local w)))\<rparr>, w)"
  using assms exceeding_amount_positive [OF normalized_getBankState_local assms]
  by (simp add: tryDeductVirtualMoney_local_def Let_def safeAmount_finite)

lemma tryDeduct_local_nonfinite:
  assumes "\<not> finite_num amount"
  shows "tryDeductVirtualMoney_local amount note w =
          (\<lparr>ok = False, state = getBankState_local w, message = Some ''Invalid amount.''\<rparr>, w)"
  using assms by (simp add: tryDeductVirtualMoney_local_def Let_def safeAmount_nonfinite)

lemma tryDeduct_local_failure:
  assumes "\<not> ok (fst (tryDeductVirtualMoney_local amount note w))"
  shows "state (fst (tryDeductVirtualMoney_local amount note w)) = getBankState_local w \<and>
         snd (tryDeductVirtualMoney_local amount note w) = w"
  using assms
  by (simp add: tryDeductVirtualMoney_local_def Let_def case_prod_beta split: if_splits)

lemma tryDeduct_local_success:
  assumes "ok (fst (tryDeductVirtualMoney_local amount note w))"
  shows "is_debit_of (getBankState_local w) amount note
           (state (fst (tryDeductVirtualMoney_local amount note w))) \<and>
         \<not> js_less (balance (getBankState_local w)) amount \<and> positive_amount amount"
proof -
  from assms have pos: "\<not> js_le (safeAmount amount) (Fin 0)"
    and suff: "\<not> js_less (balance (getBankState_local w)) (safeAmount amount)"
    by (auto simp: tryDeductVirtualMoney_local_def Let_def case_prod_beta split: if_splits)
  from pos have p: "positive_amount amount" by (simp add: safeAmount_positive_amount)
  then have s: "safeAmount amount = amount" by (rule positive_safeAmount)
  show ?thesis using pos suff p
    by (simp add: tryDeductVirtualMoney_local_def Let_def case_prod_beta s)
qed

lemma tryDeduct_app_insufficient:
  assumes "finite_num amount"
    "js_less (balance (fst (getBankState_app (snd (resolveBankOwnerContext w))))) amount"
  shows "fst (tryDeductVirtualMoney_app amount note w) =
          \<lparr>ok = False, state = fst (getBankState_app (snd (resolveBankOwnerContext w))),
            message = Some (''Insufficient balance. Available: '' @
              toFixed2 (balance (fst (getBankState_app (snd (resolveBankOwnerContext w))))))\<rparr>"
  using assms exceeding_amount_positive [OF normalized_getBankState_app assms]
  by (simp add: tryDeductVirtualMoney_app_def Let_def case_prod_beta safeAmount_finite)

lemma tryDeduct_app_nonfinite:
  assumes "\<not> finite_num amount"
  shows "fst (tryDeductVirtualMoney_app amount note w) =
          \<lparr>ok = False, state = fst (getBankState_app (snd (resolveBankOwnerContext w))),
           message = Some ''Invalid amount.''\<rparr>"
  using assms
  by (simp add: tryDeductVirtualMoney_app_def Let_def safeAmount_nonfinite case_prod_beta)

lemma tryDeduct_app_failure:
  assumes "\<not> ok (fst (tryDeductVirtualMoney_app amount note w))"
  shows "state (fst (tryDeductVirtualMoney_app amount note w)) =
           fst (getBankState_app (snd (resolveBankOwnerContext w))) \<and>
         snd (tryDeductVirtualMoney_app amount note w) =
           snd (getBankState_app (snd (resolveBankOwnerContext w)))"
  using assms
  by (simp add: tryDeductVirtualMoney_app_def Let_def case_prod_beta split: if_splits)

lemma tryDeduct_app_success:
  assumes "ok (fst (tryDeductVirtualMoney_app amount note w))"
  shows "is_debit_of (fst (getBankState_app (snd (resolveBankOwnerContext w)))) amount note
           (state (fst (tryDeductVirtualMoney_app amount note w))) \<and>
         \<not> js_less (balance (fst (getBankState_app (snd (resolveBankOwnerContext w))))) amount \<and>
         positive_amount amount"
proof -
  let ?p = "fst (getBankState_app (snd (resolveBankOwnerContext w)))"
  from assms have pos: "\<not> js_le (safeAmount amount) (Fin 0)"
    and suff: "\<not> js_less (balance ?p) (safeAmount amount)"
    by (auto simp: tryDeductVirtualMoney_app_def Let_def case_prod_beta split: if_splits)
  from pos have p: "positive_amount amount" by (simp add: safeAmount_positive_amount)
  then have s: "safeAmount amount = amount" by (rule positive_safeAmount)
  show ?thesis using pos suff p
    by (simp add: tryDeductVirtualMoney_app_def Let_def case_prod_beta s)
qed

subsection \<open>What the environment's readings leave alone\<close>

lemma Date_now_frame [simp]:
  "users (snd (Date_now w)) = users w"
  "jsonItems (snd (Date_now w)) = jsonItems w"
  "textItems (snd (Date_now w)) = textItems w"
  "bankAccounts (snd (Date_now w)) = bankAccounts w"
  "legacyBank (snd (Date_now w)) = legacyBank w"
  "firebaseConfigured (snd (Date_now w)) = firebaseConfigured w"
  "currentUser (snd (Date_now w)) = currentUser w"
  "faults (snd (Date_now w)) = faults w"
  by (simp_all add: Date_now_def split: list.splits)

lemma new_Date_frame [simp]:
  "users (snd (new_Date_toISOString w)) = users w"
  "jsonItems (snd (new_Date_toISOString w)) = jsonItems w"
  "textItems (snd (new_Date_toISOString w)) = textItems w"
  "bankAccounts (snd (new_Date_toISOString w)) = bankAccounts w"
  "legacyBank (snd (new_Date_toISOString w)) = legacyBank w"
  "firebaseConfigured (snd (new_Date_toISOString w)) = firebaseConfigured w"
  "currentUser (snd (new_Date_toISOString w)) = currentUser w"
  "faults (snd (new_Date_toISOString w)) = faults w"
  by (simp_all add: new_Date_toISOString_def split: list.splits)

lemma firestoreCall_frame [simp]:
  "users (snd (firestoreCall w)) = users w"
  "jsonItems (snd (firestoreCall w)) = jsonItems w"
  "textItems (snd (firestoreCall w)) = textItems w"
  "bankAccounts (snd (firestoreCall w)) = bankAccounts w"
  "legacyBank (snd (firestoreCall w)) = legacyBank w"
  "firebaseConfigured (snd (firestoreCall w)) = firebaseConfigured w"
  "currentUser (snd (firestoreCall w)) = currentUser w"
  "clock (snd (firestoreCall w)) = clock w"
  by (simp_all add: firestoreCall_def split: list.splits)



lemma saveLocalBankState_frame [simp]:
  "users (saveLocalBankState uid st w) = users w"
  "bankAccounts (saveLocalBankState uid st w) = bankAccounts w"
  by (simp_all add: saveLocalBankState_def)

lemma data_bankState_merge [simp]:
  "data_bankState (Some (merge_user acc (Some v) old)) = v"
  by (simp add: data_bankState_def merge_user_def Let_def split: option.splits)

subsection \<open>A successful transfer of the bank application\<close>


subsection \<open>A successful payment of the subscription application\<close>

lemma localBankStorageKey_inj [simp]:
  "localBankStorageKey a = localBankStorageKey b \<longleftrightarrow> a = b"
  by (simp add: localBankStorageKey_def)






subsection \<open>Transfers that are refused\<close>

lemma transfer_self:
  assumes "\<not> noUid w" "matches_account_pattern (toUpperCase (trim target))"
    and "ensureBankAccountForUser (the (currentUser w)) w = (Inr acc, w1)"
    and "present acc" "toUpperCase (trim (the acc)) = toUpperCase (trim target)"
  shows "transferToAccountByNumber target amount note w =
           (Inr \<lparr>t_ok = False, t_message = ''You cannot pay your own account.'',
                 t_state = fst (getBankState w1)\<rparr>, snd (getBankState w1))"
  using assms by (simp add: transferToAccountByNumber_def Let_def case_prod_beta present_def)

lemma pay_self_valid_amount:
  assumes "\<not> noUid w" "isValidAccountNumber (normalizeAccountNumber target)"
    and "ensureBankAccountForUser_app (the (currentUser w)) (snd (getBankState_app w)) = (own, w2)"
    and "present own" "normalizeAccountNumber (the own) = normalizeAccountNumber target"
    and "positive_amount amount"
  shows "payToAccountByNumber target amount note w =
           (Inr \<lparr>t_ok = False, t_message = ''You cannot pay your own account.'',
                 t_state = fst (getBankState_app w)\<rparr>, w2)"
proof -
  from assms(2) have "normalizeAccountNumber target \<noteq> []"
    by (auto simp: isValidAccountNumber_def matches_account_pattern_def)
  with assms safeAmount_positive_amount [of amount] show ?thesis
    by (simp add: payToAccountByNumber_def Let_def case_prod_beta)
qed

lemma pay_invalid_amount:
  assumes "\<not> noUid w" "isValidAccountNumber (normalizeAccountNumber target)"
    and "\<not> positive_amount amount"
  shows "payToAccountByNumber target amount note w =
           (Inr \<lparr>t_ok = False, t_message = ''Invalid amount.'',
                 t_state = fst (getBankState_app w)\<rparr>, snd (getBankState_app w))"
proof -
  from assms(2) have "normalizeAccountNumber target \<noteq> []"
    by (auto simp: isValidAccountNumber_def matches_account_pattern_def)
  with assms safeAmount_positive_amount [of amount] show ?thesis
    by (simp add: payToAccountByNumber_def Let_def case_prod_beta)
qed

lemma transfer_invalid_target:
  assumes "\<not> noUid w" "\<not> matches_account_pattern (toUpperCase (trim target))"
  shows "transferToAccountByNumber target amount note w =
           (Inr \<lparr>t_ok = False, t_message = ''Invalid receiver account number.'',
                 t_state = fst (getBankState w)\<rparr>, snd (getBankState w))"
  using assms by (simp add: transferToAccountByNumber_def Let_def case_prod_beta)

lemma pay_invalid_target:
  assumes "\<not> noUid w" "\<not> matches_account_pattern (normalizeAccountNumber target)"
  shows "payToAccountByNumber target amount note w =
           (Inr \<lparr>t_ok = False, t_message = ''Invalid receiver account number.'',
                 t_state = fst (getBankState_app w)\<rparr>, snd (getBankState_app w))"
  using assms
  by (simp add: payToAccountByNumber_def Let_def case_prod_beta isValidAccountNumber_def)

lemma transfer_insufficient:
  assumes "\<not> noUid w" "matches_account_pattern (toUpperCase (trim target))"
    and "ensureBankAccountForUser (the (currentUser w)) w = (Inr acc, w1)"
    and "\<not> (present acc \<and> toUpperCase (trim (the acc)) = toUpperCase (trim target))"
    and "finite_num amount" "js_less (balance (fst (getBankState w1))) amount"
  shows "transferToAccountByNumber target amount note w =
           (Inr \<lparr>t_ok = False,
                 t_message = ''Insufficient balance. Available: '' @
                             toFixed2 (balance (fst (getBankState w1))),
                 t_state = fst (getBankState w1)\<rparr>, snd (getBankState w1))"
  using assms exceeding_amount_positive [OF normalized_getBankState assms(5,6)]
  by (auto simp: transferToAccountByNumber_def Let_def case_prod_beta present_def
      safeAmount_finite)

lemma pay_insufficient:
  assumes "\<not> noUid w" "isValidAccountNumber (normalizeAccountNumber target)"
    and "ensureBankAccountForUser_app (the (currentUser w)) (snd (getBankState_app w)) = (own, w2)"
    and "\<not> (present own \<and> normalizeAccountNumber (the own) = normalizeAccountNumber target)"
    and "finite_num amount" "js_less (balance (fst (getBankState_app w))) amount"
  shows "payToAccountByNumber target amount note w =
           (Inr \<lparr>t_ok = False,
                 t_message = ''Insufficient balance. Available: '' @
                             toFixed2 (balance (fst (getBankState_app w))),
                 t_state = fst (getBankState_app w)\<rparr>, w2)"
proof -
  from assms(2) have "normalizeAccountNumber target \<noteq> []"
    by (auto simp: isValidAccountNumber_def matches_account_pattern_def)
  with assms exceeding_amount_positive [OF normalized_getBankState_app assms(5,6)]
  show ?thesis
    by (auto simp: payToAccountByNumber_def Let_def case_prod_beta safeAmount_finite)
qed

section \<open>Evaluation of the example states\<close>

text \<open>
  The rules that run the model on a concrete state. The weak congruence rules keep the
  simplifier from entering the body of a \<open>let\<close> or of a pattern match before the
  value it binds is known.
\<close>

lemma floor_numeral_div: "\<lfloor>numeral a / numeral b :: rat\<rfloor> = numeral a div numeral b"
  by (metis floor_divide_of_int_eq of_int_numeral)

lemmas number_eval = round_double_def round_magnitude_def round_half_even_def pow2_def
  binade.simps floor_numeral_div js_less_def js_le_def js_add_def js_sub_def Math_max_def
  finite_num_def positive_amount_def increased_by_exactly_def decreased_by_exactly_def

lemmas string_eval = trim_def toUpperCase_def upper_case_def upper_case_table_def is_space_def
  white_space_def sequence_length_def remove_spaces_def
  matches_account_pattern_def is_upper_alnum_def is_alnum_def normalizeAccountNumber_def
  isValidAccountNumber_def slice_last_def digit_char_def toString_nat.simps toFixed2_def
  exponent_form_def shortest_digits.simps digits_at_def

lemmas store_eval = Date_now_def new_Date_toISOString_def random4_def firestoreCall_def
  getDoc_user_def getDoc_bankAccount_def getDoc_legacy_def merge_user_def write_user_def
  setDoc_user_def setDoc_bankAccount_def data_accountNumber_def data_bankState_def data_uid_def
  nonblank_string_def safeAmount_def generateAccountNumber_def noUid_def present_def
  state_value_def transaction_value_def kind_value_def JSON_state_def JSON_transaction_def
  JSON_number_def normalizeState_def normalizeItem_def
  defaultBankState_def creditedState_def debitedState_def hasUserBankState_def
  List.map_filter_simps readLedger_def remoteLedger_def cachedLedger_app_def Let_def

lemmas local_eval = BANK_STORAGE_KEY_def saveBankState_local_def getBankState_local_def
  addVirtualMoney_local_def tryDeductVirtualMoney_local_def

lemmas bank_eval = localBankKey_def localAccountKey_def getLocalBankState_def
  saveLocalBankState_def saveCloudBankState_def getUidByAccountNumber_def
  syncAccountNumberToCloud_def setLocalAccount_def localFallback_def reserveTransaction_def
  ensureBankAccountForUser_def getBankState_def addVirtualMoney_def
  transferToAccountByNumber_def senderRead_def receiverLookup_def receiverRead_def
  senderLabel_def

lemmas app_eval = LOCAL_ACCOUNT_UID_MAP_KEY_def linkedAccountStorageKey_def
  localAccountStorageKey_def localBankStorageKey_def saveLocalBankState_app_def
  Object_entries_def getLocalUidMap_def saveLocalUidMap_def registerLocalAccountMapping_def
  getLocalUidByAccountNumber_def getOrCreateLocalAccountNumber_def saveCloudBankState_app_def
  persistStateForOwner_def getUidByAccountNumber_app_def ensureCloudBankDoc_def
  getLocalBankState_app_def reserveTransaction_app_def ensureBankAccountForUser_app_def
  resolveBankOwnerContext_def getBankState_app_def addVirtualMoney_app_def
  tryDeductVirtualMoney_app_def payToAccountByNumber_def recipientLookup_def
  payerContext_def recipientPrevious_def payerLabel_def

lemma localAttempts_numeral:
  "localAttempts (numeral k) uid uidMap w =
     (let (candidate, w1) = generateAccountNumber w
      in if \<not> present (map_of uidMap candidate)
         then (candidate,
               saveLocalUidMap (AList.update candidate uid uidMap)
                 (w1\<lparr>textItems := (textItems w1)(localAccountStorageKey uid \<mapsto> candidate)\<rparr>))
         else localAttempts (pred_numeral k) uid uidMap w1)"
  by (simp add: numeral_eq_Suc)

subsection \<open>Numbers and strings\<close>

text \<open>
  The numbers and strings of the examples are computed once; the runs below use the
  results.
\<close>

lemma round_examples:
  "round_double 0 = Fin 0" "round_double 2 = Fin 2" "round_double 3 = Fin 3"
  "round_double (- 3) = Fin (- 3)" "round_double (- 5) = Fin (- 5)"
  "round_double 5 = Fin 5" "round_double 10 = Fin 10" "round_double 30 = Fin 30"
  "round_double 40 = Fin 40" "round_double 45 = Fin 45" "round_double 60 = Fin 60"
  "round_double 70 = Fin 70" "round_double 100 = Fin 100" "round_double 140 = Fin 140"
  by (simp_all add: number_eval)

lemma round_tenths:
  "round_double (1 / 10) = Fin (3602879701896397 / 36028797018963968)"
  "round_double (1 / 5) = Fin (3602879701896397 / 18014398509481984)"
  "round_double (11 / 10) = Fin (2476979795053773 / 2251799813685248)"
  "round_double (3602879701896397 / 36028797018963968) =
     Fin (3602879701896397 / 36028797018963968)"
  "round_double (3602879701896397 / 18014398509481984) =
     Fin (3602879701896397 / 18014398509481984)"
  "round_double (2476979795053773 / 2251799813685248) =
     Fin (2476979795053773 / 2251799813685248)"
  "round_double (16212958658533787 / 18014398509481984) =
     Fin (4053239664633447 / 4503599627370496)"
  "round_double (10808639105689191 / 36028797018963968) =
     Fin (1351079888211149 / 4503599627370496)"
  "round_double (4053239664633447 / 4503599627370496) =
     Fin (4053239664633447 / 4503599627370496)"
  "round_double (1351079888211149 / 4503599627370496) =
     Fin (1351079888211149 / 4503599627370496)"
  by (simp_all add: number_eval)

lemmas number_ops = js_less_def js_le_def js_add_def js_sub_def Math_max_def
  finite_num_def positive_amount_def increased_by_exactly_def decreased_by_exactly_def
  round_examples round_tenths

lemma toFixed2_examples:
  "toFixed2 (Fin 40) = ''40.00''" "toFixed2 (Fin 5) = ''5.00''"
  "toFixed2 (Fin 100) = ''100.00''" "toFixed2 (Fin (1 / 5)) = ''0.20''"
  by (simp_all add: string_eval number_eval)

lemma string_examples:
  "trim ''BM6543212000'' = ''BM6543212000''"
  "trim ''BM1234561000'' = ''BM1234561000''"
  "trim '' bm1234561000'' = ''bm1234561000''"
  "trim ''XYZ123'' = ''XYZ123''"
  "trim ''BM0001231000'' = ''BM0001231000''"
  "trim ''u1'' = ''u1''" "trim ''u2'' = ''u2''" "trim ''u9'' = ''u9''"
  "toUpperCase ''BM6543212000'' = ''BM6543212000''"
  "toUpperCase ''BM1234561000'' = ''BM1234561000''"
  "toUpperCase ''bm1234561000'' = ''BM1234561000''"
  "toUpperCase ''BM0001231000'' = ''BM0001231000''"
  "toUpperCase ''XYZ123'' = ''XYZ123''"
  "toUpperCase ''u1'' = ''U1''"
  "remove_spaces ''BM6543212000'' = ''BM6543212000''"
  "remove_spaces ''BM1234561000'' = ''BM1234561000''"
  "remove_spaces ''BM0001231000'' = ''BM0001231000''"
  "remove_spaces ''XYZ123'' = ''XYZ123''"
  "is_alnum CHR ''u''" "is_alnum CHR ''1''"
  "matches_account_pattern ''BM6543212000''"
  "matches_account_pattern ''BM1234561000''"
  "\<not> matches_account_pattern ''XYZ123''"
  "\<not> matches_account_pattern ''BMU1''"
  "toString_nat 1700000000123 = ''1700000000123''"
  "toString_nat 1700000000124 = ''1700000000124''"
  "toString_nat 1000 = ''1000''"
  "slice_last 6 ''1700000000123'' = ''000123''"
  by (simp_all add: string_eval)

lemmas strings = normalizeAccountNumber_def isValidAccountNumber_def string_examples
  toFixed2_examples

subsection \<open>The local module\<close>

lemma localWorld_state:
  "getBankState_local localWorld = \<lparr>balance = Fin 5, transactions = []\<rparr>"
  by (simp add: localWorld_def local_eval store_eval number_ops)

lemma localWorld_credit:
  "fst (addVirtualMoney_local (Fin 40) ''Manual top-up'' localWorld) =
     \<lparr>balance = Fin 45,
      transactions = [\<lparr>tx_id = ''tx-1700000000123'', tx_type = credit, tx_amount = Fin 40,
                       tx_note = ''Manual top-up'',
                       tx_createdAt = ''2023-11-14T22:13:20.123Z''\<rparr>]\<rparr>"
  by (simp add: localWorld_def local_eval store_eval strings number_ops
      cong: let_weak_cong prod.case_cong_weak)

lemma localWorld_debit:
  "fst (tryDeductVirtualMoney_local (Fin 3) ''Netflix'' localWorld) =
     \<lparr>ok = True,
      state = \<lparr>balance = Fin 2,
        transactions = [\<lparr>tx_id = ''tx-1700000000123'', tx_type = debit, tx_amount = Fin 3,
                         tx_note = ''Netflix'',
                         tx_createdAt = ''2023-11-14T22:13:20.123Z''\<rparr>]\<rparr>,
      message = None\<rparr>"
  by (simp add: localWorld_def local_eval store_eval strings number_ops
      cong: let_weak_cong prod.case_cong_weak)

lemma localWorld_overdraft:
  "tryDeductVirtualMoney_local (Fin 40) ''Netflix'' localWorld =
     (\<lparr>ok = False, state = \<lparr>balance = Fin 5, transactions = []\<rparr>,
       message = Some ''Insufficient balance. Available: 5.00''\<rparr>, localWorld)"
  by (simp add: localWorld_def local_eval store_eval strings number_ops
      cong: let_weak_cong prod.case_cong_weak)

lemma localWorld_infinite:
  "tryDeductVirtualMoney_local PosInfinity ''Netflix'' localWorld =
     (\<lparr>ok = False, state = \<lparr>balance = Fin 5, transactions = []\<rparr>,
       message = Some ''Invalid amount.''\<rparr>, localWorld)"
  by (simp add: localWorld_def local_eval store_eval strings number_ops
      cong: let_weak_cong prod.case_cong_weak)

lemma tenthWorld_state:
  "getBankState_local tenthWorld = \<lparr>balance = Fin (1 / 10), transactions = []\<rparr>"
  by (simp add: tenthWorld_def localWorld_def local_eval store_eval number_ops)

lemma tenthWorld_credit:
  "balance (fst (addVirtualMoney_local (Fin (1 / 5)) ''Added money'' tenthWorld)) =
     Fin (1351079888211149 / 4503599627370496)"
  by (simp add: tenthWorld_def localWorld_def local_eval store_eval strings number_ops
      cong: let_weak_cong prod.case_cong_weak)

subsection \<open>The bank application\<close>

lemma bankWorld_account:
  "fst (ensureBankAccountForUser ''u1'' bankWorld) = Inr (Some ''BM1234561000'')"
  by (simp add: bankWorld_def bank_eval store_eval strings
      cong: let_weak_cong prod.case_cong_weak)

lemma bankWorld_sender:
  "fst (senderRead bankWorld) = \<lparr>balance = Fin 100, transactions = []\<rparr>"
  by (simp add: bankWorld_def bank_eval store_eval strings number_ops
      cong: let_weak_cong prod.case_cong_weak)





lemma bankRun_sender:
  "remoteLedger (snd bankRun) ''u1'' =
     state_value \<lparr>balance = Fin 60,
             transactions = [\<lparr>tx_id = ''tx-1700000000123-debit'', tx_type = debit,
                tx_amount = Fin 40, tx_note = ''QR payment to BM6543212000'',
                tx_createdAt = ''2023-11-14T22:13:20.123Z''\<rparr>]\<rparr>"
  by (simp add: bankRun_def bankWorld_def bank_eval store_eval strings number_ops
      cong: let_weak_cong prod.case_cong_weak)

lemma bankWorld_credit:
  "fst (addVirtualMoney (Fin 40) ''Manual top-up'' bankWorld) =
     Inr \<lparr>a_state = \<lparr>balance = Fin 140,
             transactions = [\<lparr>tx_id = ''tx-1700000000123'', tx_type = credit,
                tx_amount = Fin 40, tx_note = ''Manual top-up'',
                tx_createdAt = ''2023-11-14T22:13:20.123Z''\<rparr>]\<rparr>,
          persistedToCloud = True\<rparr>"
  by (simp add: bankWorld_def bank_eval store_eval strings number_ops
      cong: let_weak_cong prod.case_cong_weak)

lemma bankWorld_overdraft:
  "fst (transferToAccountByNumber ''BM6543212000'' (Fin 140) ''QR payment'' bankWorld) =
     Inr \<lparr>t_ok = False, t_message = ''Insufficient balance. Available: 100.00'',
          t_state = \<lparr>balance = Fin 100, transactions = []\<rparr>\<rparr>"
  by (simp add: bankWorld_def bank_eval store_eval strings number_ops
      cong: let_weak_cong prod.case_cong_weak)

lemma bankWorld_self:
  "fst (transferToAccountByNumber '' bm1234561000'' NaN ''QR payment'' bankWorld) =
     Inr \<lparr>t_ok = False, t_message = ''You cannot pay your own account.'',
          t_state = \<lparr>balance = Fin 100, transactions = []\<rparr>\<rparr>"
  by (simp add: bankWorld_def bank_eval store_eval strings number_ops
      cong: let_weak_cong prod.case_cong_weak)

lemma bankRun_receiverWriteFails_result:
  "fst bankRun_receiverWriteFails =
     Inr \<lparr>t_ok = False,
          t_message = ''Payment partially saved locally. Cloud sync failed.'',
          t_state = \<lparr>balance = Fin 60,
             transactions = [\<lparr>tx_id = ''tx-1700000000123-debit'', tx_type = debit,
                tx_amount = Fin 40, tx_note = ''QR payment to BM6543212000'',
                tx_createdAt = ''2023-11-14T22:13:20.123Z''\<rparr>]\<rparr>\<rparr>"
  by (simp add: bankRun_receiverWriteFails_def bankWorld_receiverWriteFails_def bankWorld_def
      bank_eval store_eval strings number_ops cong: let_weak_cong prod.case_cong_weak)





lemma provisioningFirst_result:
  "fst provisioningFirst = Inr (Some ''BM1234561000'')"
  by (simp add: provisioningFirst_def provisioningWorld_def bank_eval store_eval strings
      cong: let_weak_cong prod.case_cong_weak)

lemma provisioningFirst_cache:
  "textItems (snd provisioningFirst) (localAccountKey ''u1'') = Some ''BM1234561000''"
  by (simp add: provisioningFirst_def provisioningWorld_def bank_eval store_eval strings
      cong: let_weak_cong prod.case_cong_weak)

lemma provisioningSecond_result:
  "fst provisioningSecond = Inl FirebaseError"
  by (simp add: provisioningSecond_def provisioningFirst_def provisioningWorld_def bank_eval
      store_eval strings cong: let_weak_cong prod.case_cong_weak)

lemma legacyRun_result:
  "fst legacyRun =
     Inr \<lparr>t_ok = False, t_message = ''Invalid receiver account number.'',
          t_state = \<lparr>balance = Fin 5, transactions = []\<rparr>\<rparr>"
  by (simp add: legacyRun_def legacyWorld_def bank_eval store_eval strings number_ops
      cong: let_weak_cong prod.case_cong_weak)

lemma legacyRun_remote:
  "users legacyWorld ''u1'' = None"
  "users (snd legacyRun) ''u1'' =
     Some \<lparr>accountNumber = JUndefined,
           bankState = state_value \<lparr>balance = Fin 5, transactions = []\<rparr>\<rparr>"
  by (simp_all add: legacyRun_def legacyWorld_def bank_eval store_eval strings number_ops
      cong: let_weak_cong prod.case_cong_weak)

lemma legacyRun_cache:
  "jsonItems legacyWorld ''bankapp:bank-state:u1'' = None"
  "jsonItems (snd legacyRun) ''bankapp:bank-state:u1'' =
     Some (state_value \<lparr>balance = Fin 5, transactions = []\<rparr>)"
  by (simp_all add: legacyRun_def legacyWorld_def bank_eval store_eval strings number_ops
      cong: let_weak_cong prod.case_cong_weak)

subsection \<open>The subscription application\<close>


lemma appWorld_payer_again:
  "fst (getBankState_app (snd (resolveBankOwnerContext appWorld))) =
     \<lparr>balance = Fin 100, transactions = []\<rparr>"
  by (simp add: appWorld_def app_eval store_eval strings number_ops
      cong: let_weak_cong prod.case_cong_weak)








lemma appWorld_credit:
  "fst (addVirtualMoney_app (Fin 40) ''Manual top-up'' appWorld) =
     \<lparr>balance = Fin 140,
      transactions = [\<lparr>tx_id = ''tx-1700000000123'', tx_type = credit,
         tx_amount = Fin 40, tx_note = ''Manual top-up'',
         tx_createdAt = ''2023-11-14T22:13:20.123Z''\<rparr>]\<rparr>"
  by (simp add: appWorld_def app_eval store_eval strings number_ops
      cong: let_weak_cong prod.case_cong_weak)

lemma appWorld_debit:
  "fst (tryDeductVirtualMoney_app (Fin 30) ''Netflix'' appWorld) =
     \<lparr>ok = True,
      state = \<lparr>balance = Fin 70,
        transactions = [\<lparr>tx_id = ''tx-1700000000123'', tx_type = debit, tx_amount = Fin 30,
                         tx_note = ''Netflix'',
                         tx_createdAt = ''2023-11-14T22:13:20.123Z''\<rparr>]\<rparr>,
      message = None\<rparr>"
  by (simp add: appWorld_def app_eval store_eval strings number_ops
      cong: let_weak_cong prod.case_cong_weak)

lemma appWorld_overdraft:
  "fst (tryDeductVirtualMoney_app (Fin 140) ''Netflix'' appWorld) =
     \<lparr>ok = False, state = \<lparr>balance = Fin 100, transactions = []\<rparr>,
      message = Some ''Insufficient balance. Available: 100.00''\<rparr>"
  by (simp add: appWorld_def app_eval store_eval strings number_ops
      cong: let_weak_cong prod.case_cong_weak)

lemma appWorld_self:
  "fst (payToAccountByNumber ''BM1234561000'' (Fin 40) ''QR payment'' appWorld) =
     Inr \<lparr>t_ok = False, t_message = ''You cannot pay your own account.'',
          t_state = \<lparr>balance = Fin 100, transactions = []\<rparr>\<rparr>"
  by (simp add: appWorld_def app_eval store_eval strings number_ops
      cong: let_weak_cong prod.case_cong_weak)

lemma selfRun_result:
  "fst selfRun =
     Inr \<lparr>t_ok = False, t_message = ''Invalid amount.'',
          t_state = \<lparr>balance = Fin 100, transactions = []\<rparr>\<rparr>"
  by (simp add: selfRun_def appWorld_def app_eval store_eval strings number_ops
      cong: let_weak_cong prod.case_cong_weak)

lemma appWorld_invalid_target:
  "fst (payToAccountByNumber ''XYZ123'' (Fin 10) ''QR payment'' appWorld) =
     Inr \<lparr>t_ok = False, t_message = ''Invalid receiver account number.'',
          t_state = \<lparr>balance = Fin 100, transactions = []\<rparr>\<rparr>"
  by (simp add: appWorld_def app_eval store_eval strings number_ops
      cong: let_weak_cong prod.case_cong_weak)

lemma appRun_recipientWriteFails_result:
  "fst appRun_recipientWriteFails =
     Inr \<lparr>t_ok = True,
          t_message = ''Paid 40.00 to BM6543212000'',
          t_state = \<lparr>balance = Fin 60,
             transactions = [\<lparr>tx_id = ''tx-1700000000123-debit'', tx_type = debit,
                tx_amount = Fin 40, tx_note = ''QR payment to BM6543212000'',
                tx_createdAt = ''2023-11-14T22:13:20.123Z''\<rparr>]\<rparr>\<rparr>"
  by (simp add: appRun_recipientWriteFails_def appWorld_recipientWriteFails_def appWorld_def
      app_eval store_eval strings number_ops cong: let_weak_cong prod.case_cong_weak)

lemma appRun_recipientWriteFails_remote:
  "remoteLedger (snd appRun_recipientWriteFails) ''u2'' =
     state_value \<lparr>balance = Fin 0, transactions = []\<rparr>"
  by (simp add: appRun_recipientWriteFails_def appWorld_recipientWriteFails_def appWorld_def
      app_eval store_eval strings number_ops cong: let_weak_cong prod.case_cong_weak)

lemma appRun_recipientWriteFails_payer:
  "balance (readLedger (snd appRun_recipientWriteFails) ''u1'') = Fin 60"
  by (simp add: appRun_recipientWriteFails_def appWorld_recipientWriteFails_def appWorld_def
      app_eval store_eval strings number_ops cong: let_weak_cong prod.case_cong_weak)

lemma appRun_recipientWriteFails_cache:
  "cachedLedger_app (snd appRun_recipientWriteFails) ''acc:BM6543212000'' =
     Some (state_value \<lparr>balance = Fin 40,
      transactions = [\<lparr>tx_id = ''tx-1700000000124-credit'', tx_type = credit,
         tx_amount = Fin 40, tx_note = ''QR payment from BM1234561000'',
         tx_createdAt = ''2023-11-14T22:13:20.124Z''\<rparr>]\<rparr>)"
  by (simp add: appRun_recipientWriteFails_def appWorld_recipientWriteFails_def appWorld_def
      app_eval store_eval strings number_ops cong: let_weak_cong prod.case_cong_weak)

lemma collisionWorld_account:
  "fst (ensureBankAccountForUser_app ''u1'' collisionWorld) = Some ''BMU1''"
  by (simp add: collisionWorld_def app_eval store_eval strings localAttempts_numeral
      cong: let_weak_cong prod.case_cong_weak)

section \<open>The claims\<close>

subsection \<open>C1: what a successful transfer does\<close>




subsection \<open>C2: what a credit does\<close>

text \<open>
  C2. For every ledger state and every finite amount greater than 0, credit
  (\<^verbatim>\<open>addVirtualMoney\<close>) returns a state whose balance is the previous balance plus the
  amount as JavaScript adds them, which is the exact sum rounded to the nearest double
  and so exactly the sum whenever that is a double, and whose log is the previous log
  with exactly one new transaction of kind credit, carrying that amount, in front. In
  the bank application this is so when a user is signed in and the allocation of the
  user's account number does not raise.
\<close>

theorem credit_adds_amount:
  "positive_amount amount \<longrightarrow>
     is_credit_of (getBankState_local w) amount memo
       (fst (addVirtualMoney_local amount memo w)) \<and>
     is_credit_of (fst (getBankState_app (snd (resolveBankOwnerContext w)))) amount memo
       (fst (addVirtualMoney_app amount memo w)) \<and>
     (\<not> noUid w \<and> \<not> isl (fst (ensureBankAccountForUser (the (currentUser w)) w)) \<longrightarrow>
        \<not> isl (fst (addVirtualMoney amount memo w)) \<and>
        is_credit_of
          (fst (getBankState (snd (ensureBankAccountForUser (the (currentUser w)) w))))
          amount memo (a_state (projr (fst (addVirtualMoney amount memo w))))) \<and>
     (number b = Fin x \<and> number amount = Fin y \<and> round_double (x + y) = Fin (x + y) \<longrightarrow>
        increased_by_exactly b amount (js_add b amount))"
proof -
  have bank: "\<not> isl (fst (addVirtualMoney amount memo w)) \<and>
        is_credit_of
          (fst (getBankState (snd (ensureBankAccountForUser (the (currentUser w)) w))))
          amount memo (a_state (projr (fst (addVirtualMoney amount memo w))))"
    if p: "positive_amount amount"
      and h: "\<not> noUid w" "\<not> isl (fst (ensureBankAccountForUser (the (currentUser w)) w))"
  proof -
    from h(2) obtain acc w1 where
      e: "ensureBankAccountForUser (the (currentUser w)) w = (Inr acc, w1)"
      by (cases "ensureBankAccountForUser (the (currentUser w)) w";
          cases "fst (ensureBankAccountForUser (the (currentUser w)) w)") auto
    from addVirtualMoney_credit [OF p h(1) e, of memo] e show ?thesis by simp
  qed
  have exact: "increased_by_exactly b amount (js_add b amount)"
    if "number b = Fin x" "number amount = Fin y" "round_double (x + y) = Fin (x + y)"
    using that by (rule increased_by_exactly_js_add)
  from bank exact show ?thesis
    by (auto intro: addVirtualMoney_local_credit addVirtualMoney_app_credit)
qed

text \<open>
  A credit of 40 in each module: on the ledger with 5 of the local module, and on the
  ledger with 100 of the signed-in user of the two applications. The new balances are
  45 and 140, which are exactly the sums.
\<close>

theorem credit_adds_amount_witness:
  "is_credit_of \<lparr>balance = Fin 5, transactions = []\<rparr> (Fin 40) ''Manual top-up''
     (fst (addVirtualMoney_local (Fin 40) ''Manual top-up'' localWorld)) \<and>
   balance (fst (addVirtualMoney_local (Fin 40) ''Manual top-up'' localWorld)) = Fin 45 \<and>
   is_credit_of \<lparr>balance = Fin 100, transactions = []\<rparr> (Fin 40) ''Manual top-up''
     (fst (addVirtualMoney_app (Fin 40) ''Manual top-up'' appWorld)) \<and>
   balance (fst (addVirtualMoney_app (Fin 40) ''Manual top-up'' appWorld)) = Fin 140 \<and>
   is_credit_of \<lparr>balance = Fin 100, transactions = []\<rparr> (Fin 40) ''Manual top-up''
     (a_state (projr (fst (addVirtualMoney (Fin 40) ''Manual top-up'' bankWorld)))) \<and>
   balance (a_state (projr (fst (addVirtualMoney (Fin 40) ''Manual top-up'' bankWorld)))) =
     Fin 140 \<and>
   increased_by_exactly (Fin 5) (Fin 40) (js_add (Fin 5) (Fin 40))"
proof -
  have p: "positive_amount (Fin 40)" by (simp add: number_ops)
  have user: "currentUser bankWorld = Some ''u1''" "\<not> noUid bankWorld"
    by (simp_all add: bankWorld_def noUid_def)
  have sender: "fst (getBankState (snd (ensureBankAccountForUser ''u1'' bankWorld))) =
                  \<lparr>balance = Fin 100, transactions = []\<rparr>"
    using bankWorld_sender by (simp add: senderRead_def user)
  note l = credit_adds_amount
    [where amount = "Fin 40" and memo = "''Manual top-up''" and w = localWorld
       and b = "Fin 5" and x = 5 and y = 40]
  note a = credit_adds_amount
    [where amount = "Fin 40" and memo = "''Manual top-up''" and w = appWorld
       and b = "Fin 5" and x = 5 and y = 40]
  note k = credit_adds_amount
    [where amount = "Fin 40" and memo = "''Manual top-up''" and w = bankWorld
       and b = "Fin 5" and x = 5 and y = 40]
  from l p have 1:
    "is_credit_of \<lparr>balance = Fin 5, transactions = []\<rparr> (Fin 40) ''Manual top-up''
       (fst (addVirtualMoney_local (Fin 40) ''Manual top-up'' localWorld))"
    "increased_by_exactly (Fin 5) (Fin 40) (js_add (Fin 5) (Fin 40))"
    by (simp_all add: localWorld_state round_examples)
  from a p have 2:
    "is_credit_of \<lparr>balance = Fin 100, transactions = []\<rparr> (Fin 40) ''Manual top-up''
       (fst (addVirtualMoney_app (Fin 40) ''Manual top-up'' appWorld))"
    by (simp add: appWorld_payer_again)
  from k p user have 3:
    "is_credit_of \<lparr>balance = Fin 100, transactions = []\<rparr> (Fin 40) ''Manual top-up''
       (a_state (projr (fst (addVirtualMoney (Fin 40) ''Manual top-up'' bankWorld))))"
    by (simp add: bankWorld_account sender)
  from 1 2 3 show ?thesis
    by (simp add: localWorld_credit appWorld_credit bankWorld_credit)
qed

text \<open>
  As the claim states it, with the balance increased by exactly the amount, C2 does not
  hold: the ledger of the local module holds 0.1, and the credit of 0.2 returns the
  balance 0.30000000000000004, which is not 0.1 plus 0.2.
\<close>

theorem credit_not_exact:
  "balance (getBankState_local tenthWorld) = Fin (1 / 10) \<and>
   balance (fst (addVirtualMoney_local (Fin (1 / 5)) ''Added money'' tenthWorld)) =
     Fin (1351079888211149 / 4503599627370496) \<and>
   \<not> increased_by_exactly (Fin (1 / 10)) (Fin (1 / 5))
       (balance (fst (addVirtualMoney_local (Fin (1 / 5)) ''Added money'' tenthWorld)))"
  by (simp add: tenthWorld_state tenthWorld_credit increased_by_exactly_def round_tenths)

subsection \<open>C5: the normalizer\<close>

text \<open>
  C5. The normalizer (\<^verbatim>\<open>normalizeState\<close>, the same in the three modules) is total and
  idempotent: on every untyped value, null, arrays and partially typed objects included,
  it returns a state whose balance is finite and not below 0 and whose transactions all
  have a finite amount; normalizing the stored form of a normalized state gives the
  state back; and normalizing null, or an array, gives the default empty state, balance
  0 and no transactions. The state returned is a well-formed ledger state of the data
  model exactly when none of the transactions it keeps has an amount below 0: the
  normalizer does not look at the sign of an amount.
\<close>

theorem normalizeState_total_idempotent:
  "finite_num (balance (normalizeState x)) \<and>
   js_le (Fin 0) (balance (normalizeState x)) \<and>
   list_all (\<lambda>t. finite_num (tx_amount t)) (transactions (normalizeState x)) \<and>
   (wellFormed (normalizeState x) \<longleftrightarrow>
      list_all (\<lambda>t. js_le (Fin 0) (tx_amount t)) (transactions (normalizeState x))) \<and>
   normalizeState (state_value (normalizeState x)) = normalizeState x \<and>
   normalizeState JNull = \<lparr>balance = Fin 0, transactions = []\<rparr> \<and>
   normalizeState (JArr xs) = \<lparr>balance = Fin 0, transactions = []\<rparr>"
proof -
  have n: "normalized (normalizeState x)" by (rule normalized_normalizeState)
  then have f: "finite_num (balance (normalizeState x))"
    and a: "list_all (\<lambda>t. finite_num (tx_amount t)) (transactions (normalizeState x))"
    by (simp_all add: normalized_def)
  from n have p: "js_le (Fin 0) (balance (normalizeState x))" by (rule normalized_nonneg)
  from f p a have w: "wellFormed (normalizeState x) \<longleftrightarrow>
      list_all (\<lambda>t. js_le (Fin 0) (tx_amount t)) (transactions (normalizeState x))"
    by (auto simp: wellFormed_def list_all_iff)
  have d: "normalizeState JNull = \<lparr>balance = Fin 0, transactions = []\<rparr>"
    "normalizeState (JArr xs) = \<lparr>balance = Fin 0, transactions = []\<rparr>"
    by (simp_all add: normalizeState_def defaultBankState_def Math_max_zero)
  from f p a w d show ?thesis by (simp add: normalizeState_idempotent)
qed

text \<open>
  A stored value with a negative balance, two entries that are not objects, one well
  typed transaction and one of an unknown kind: the normalizer returns the balance 0
  and the one transaction, and returns the same from the stored form of that state.
\<close>

theorem normalizeState_total_idempotent_witness:
  "normalizeState (state_value (normalizeState
     (JObj [(''balance'', JNum (Fin (- 5))),
            (''transactions'', JArr [JNull, JStr ''x'',
               JObj [(''id'', JStr ''tx-1''), (''type'', JStr ''debit''),
                     (''amount'', JNum (Fin 3)), (''note'', JStr ''n''),
                     (''createdAt'', JStr ''c'')],
               JObj [(''id'', JStr ''tx-2''), (''type'', JStr ''refund''),
                     (''amount'', JNum (Fin 3)), (''note'', JStr ''n''),
                     (''createdAt'', JStr ''c'')]])]))) =
   \<lparr>balance = Fin 0,
    transactions = [\<lparr>tx_id = ''tx-1'', tx_type = debit, tx_amount = Fin 3,
                     tx_note = ''n'', tx_createdAt = ''c''\<rparr>]\<rparr>"
  using normalizeState_total_idempotent
    [of "JObj [(''balance'', JNum (Fin (- 5))),
            (''transactions'', JArr [JNull, JStr ''x'',
               JObj [(''id'', JStr ''tx-1''), (''type'', JStr ''debit''),
                     (''amount'', JNum (Fin 3)), (''note'', JStr ''n''),
                     (''createdAt'', JStr ''c'')],
               JObj [(''id'', JStr ''tx-2''), (''type'', JStr ''refund''),
                     (''amount'', JNum (Fin 3)), (''note'', JStr ''n''),
                     (''createdAt'', JStr ''c'')]])]"]
  by (simp add: normalizeState_def normalizeItem_def List.map_filter_simps number_ops)

text \<open>
  As the claim states it, with a well-formed ledger state returned for every input, C5
  does not hold: the data model gives a transaction an amount that is not below 0, and
  the normalizer keeps the transaction with the amount -3 of a stored ledger.
\<close>

theorem normalizeState_keeps_negative_amount:
  "normalizeState negativeAmountLedger =
     \<lparr>balance = Fin 10,
      transactions = [\<lparr>tx_id = ''a'', tx_type = credit, tx_amount = Fin (- 3),
                       tx_note = ''refund'',
                       tx_createdAt = ''2023-11-14T22:13:20.123Z''\<rparr>]\<rparr> \<and>
   \<not> wellFormed (normalizeState negativeAmountLedger)"
  by (simp add: negativeAmountLedger_def normalizeState_def normalizeItem_def
      List.map_filter_simps wellFormed_def number_ops)

end
